theory Spec2Isabelle
  imports Complex_Main "HOL-Library.Word"
begin

section \<open>JavaScript values\<close>

subsection \<open>Strings\<close>

text \<open>
  A JavaScript string is a sequence of UTF-16 code units; \<open>s.length\<close> counts code units.
  The fixed messages of the source are ASCII literals, written as HOL strings and turned
  into code units by \<open>lit\<close>.
\<close>

type_synonym ustring = "16 word list"

definition lit :: "string \<Rightarrow> ustring" where
  "lit s = map of_char s"

text \<open>
  \<open>String.prototype.trim\<close> removes white space and line terminators from both ends:
  TAB, LF, VT, FF, CR, SP, NBSP, the Unicode space separators and U+2028, U+2029, U+FEFF.
\<close>

definition isWhiteSpace :: "16 word \<Rightarrow> bool" where
  "isWhiteSpace c = (c \<in> set [0x9, 0xA, 0xB, 0xC, 0xD, 0x20, 0xA0, 0x1680,
      0x2000, 0x2001, 0x2002, 0x2003, 0x2004, 0x2005, 0x2006, 0x2007, 0x2008, 0x2009, 0x200A,
      0x2028, 0x2029, 0x202F, 0x205F, 0x3000, 0xFEFF])"

definition trim :: "ustring \<Rightarrow> ustring" where
  "trim s = rev (dropWhile isWhiteSpace (rev (dropWhile isWhiteSpace s)))"

text \<open>\<open>s.includes(p)\<close>: \<open>p\<close> occurs in \<open>s\<close> as a contiguous run.\<close>

fun startsWith :: "'a list \<Rightarrow> 'a list \<Rightarrow> bool" where
  "startsWith s [] = True"
| "startsWith [] (p # ps) = False"
| "startsWith (c # cs) (p # ps) = (c = p \<and> startsWith cs ps)"

fun includes_str :: "'a list \<Rightarrow> 'a list \<Rightarrow> bool" where
  "includes_str [] p = (p = [])"
| "includes_str (c # cs) p = (startsWith (c # cs) p \<or> includes_str cs p)"

subsection \<open>Numbers as decimal text\<close>

definition digit_char :: "nat \<Rightarrow> char" where
  "digit_char d = ''0123456789'' ! d"

text \<open>\<open>n.toString()\<close> for a non-negative integer.\<close>

function toString :: "nat \<Rightarrow> string" where
  "toString n = (if n < 10 then [digit_char n] else toString (n div 10) @ [digit_char (n mod 10)])"
  by pat_completeness auto
termination
  by (relation "measure (\<lambda>n. n)") auto

declare toString.simps [simp del]

text \<open>
  \<open>n.toLocaleString()\<close> depends on the locale of the host. The handlers take it as a
  parameter; \<open>toLocaleString_enUS\<close> is the rendering of the \<open>en-US\<close> locale
  (groups of three digits separated by commas).
\<close>

fun commas :: "string \<Rightarrow> string" where
  "commas (a # b # c # d # ds) = a # b # c # CHR '','' # commas (d # ds)"
| "commas ds = ds"

definition toLocaleString_enUS :: "nat \<Rightarrow> string" where
  "toLocaleString_enUS n = rev (commas (rev (toString n)))"

subsection \<open>JSON\<close>

text \<open>
  The values \<open>JSON.parse\<close> produces. A property that is absent reads as \<open>undefined\<close>,
  modelled as \<open>None\<close> of \<open>json option\<close>.
\<close>

datatype json =
    JNull
  | JBool bool
  | JNum rat
  | JStr ustring
  | JArr "json list"
  | JObj "(ustring \<times> json) list"

datatype exn =
    ElevenLabsError ustring "nat option" "ustring option"
  | TypeError
  | SyntaxError
  | RangeError

text \<open>
  \<open>v.k\<close> for one of the keys the source reads (none of them is a built-in property of a
  string, number, boolean or array): reading a property of \<open>null\<close> throws, a primitive or
  an array has no such property, and in a parsed object the last duplicate of a key wins.
\<close>

fun get_prop :: "json \<Rightarrow> ustring \<Rightarrow> exn + json option" where
  "get_prop JNull k = Inl TypeError"
| "get_prop (JObj kvs) k = Inr (map_of (rev kvs) k)"
| "get_prop (JBool b) k = Inr None"
| "get_prop (JNum n) k = Inr None"
| "get_prop (JStr s) k = Inr None"
| "get_prop (JArr vs) k = Inr None"

text \<open>Truthiness: \<open>!v\<close> is \<open>\<not> truthy v\<close>.\<close>

fun truthy :: "json option \<Rightarrow> bool" where
  "truthy None = False"
| "truthy (Some JNull) = False"
| "truthy (Some (JBool b)) = b"
| "truthy (Some (JNum n)) = (n \<noteq> 0)"
| "truthy (Some (JStr s)) = (s \<noteq> [])"
| "truthy (Some (JArr vs)) = True"
| "truthy (Some (JObj kvs)) = True"

text \<open>\<open>typeof v === "string"\<close>.\<close>

fun typeof_string :: "json option \<Rightarrow> bool" where
  "typeof_string (Some (JStr s)) = True"
| "typeof_string v = False"

text \<open>The code units of a value already known to be a string.\<close>

fun string_of :: "json option \<Rightarrow> ustring" where
  "string_of (Some (JStr s)) = s"
| "string_of v = []"

text \<open>
  An object literal whose properties may be \<open>undefined\<close>, as \<open>JSON.stringify\<close> writes
  it: properties that are \<open>undefined\<close> are left out.
\<close>

fun stringify_object :: "(string \<times> json option) list \<Rightarrow> (ustring \<times> json) list" where
  "stringify_object [] = []"
| "stringify_object ((k, None) # ps) = stringify_object ps"
| "stringify_object ((k, Some v) # ps) = (lit k, v) # stringify_object ps"

section \<open>Provider client\<close>

text \<open>
  The two calls go through \<open>fetch\<close>. The upstream service is a parameter of the model: a
  function from the request sent to what \<open>fetch\<close> does with it. Each client function
  returns its result (a thrown exception is \<open>Inl\<close>) and the list of requests it sent.
\<close>

record TextToSpeechRequest =
  tts_text :: ustring
  model_id :: string
  stability :: rat
  similarity_boost :: rat

record fetch_request =
  url :: ustring
  http_method :: string
  request_headers :: "(string \<times> ustring) list"
  request_body :: "TextToSpeechRequest option"

text \<open>
  What the handlers read of an upstream response. Reading the body can fail: \<open>None\<close> is a
  rejected \<open>response.text()\<close>, \<open>response.json()\<close> or \<open>response.arrayBuffer()\<close>.
\<close>

record upstream_response =
  up_status :: nat
  up_statusText :: ustring
  up_text :: "ustring option"
  up_json :: "json option"
  up_arrayBuffer :: "8 word list option"

datatype fetch_result = Rejects | Resolves upstream_response

type_synonym upstream = "fetch_request \<Rightarrow> fetch_result"

definition up_ok :: "upstream_response \<Rightarrow> bool" where
  "up_ok r = (200 \<le> up_status r \<and> up_status r \<le> 299)"

definition ELEVENLABS_API_BASE :: string where
  "ELEVENLABS_API_BASE = ''https://api.elevenlabs.io/v1''"

definition voices_request :: "ustring \<Rightarrow> fetch_request" where
  "voices_request apiKey =
     \<lparr>url = lit ELEVENLABS_API_BASE @ lit ''/voices'',
      http_method = ''GET'',
      request_headers = [(''Accept'', lit ''application/json''), (''xi-api-key'', apiKey)],
      request_body = None\<rparr>"

text \<open>The callback of \<open>data.voices.map\<close>, and the map itself, which stops at the first throw.\<close>

definition reduce_voice :: "json \<Rightarrow> exn + (string \<times> json option) list" where
  "reduce_voice voice =
     (case get_prop voice (lit ''voice_id'') of Inl e \<Rightarrow> Inl e | Inr vid \<Rightarrow>
      case get_prop voice (lit ''name'') of Inl e \<Rightarrow> Inl e | Inr nm \<Rightarrow>
      case get_prop voice (lit ''description'') of Inl e \<Rightarrow> Inl e | Inr ds \<Rightarrow>
      case get_prop voice (lit ''category'') of Inl e \<Rightarrow> Inl e | Inr ct \<Rightarrow>
        Inr [(''voice_id'', vid), (''name'', nm), (''description'', ds), (''category'', ct)])"

fun map_voices :: "json list \<Rightarrow> exn + (string \<times> json option) list list" where
  "map_voices [] = Inr []"
| "map_voices (voice # rest) =
     (case reduce_voice voice of Inl e \<Rightarrow> Inl e
      | Inr v \<Rightarrow> (case map_voices rest of Inl e \<Rightarrow> Inl e | Inr vs \<Rightarrow> Inr (v # vs)))"

definition fetchElevenLabsVoices ::
  "upstream \<Rightarrow> ustring \<Rightarrow> (exn + (string \<times> json option) list list) \<times> fetch_request list" where
  "fetchElevenLabsVoices fetch apiKey =
     (if apiKey = [] then (Inl (ElevenLabsError (lit ''API key is required'') None None), [])
      else
        (case fetch (voices_request apiKey) of
           Rejects \<Rightarrow> Inl TypeError
         | Resolves response \<Rightarrow>
             if \<not> up_ok response then
               (case up_text response of
                  None \<Rightarrow> Inl TypeError
                | Some errorBody \<Rightarrow>
                    Inl (ElevenLabsError (lit ''Failed to fetch voices: '' @ up_statusText response)
                           (Some (up_status response)) (Some errorBody)))
             else
               (case up_json response of
                  None \<Rightarrow> Inl SyntaxError
                | Some data \<Rightarrow>
                    (case get_prop data (lit ''voices'') of
                       Inl e \<Rightarrow> Inl e
                     | Inr (Some (JArr vs)) \<Rightarrow> map_voices vs
                     | Inr other \<Rightarrow> Inl TypeError)),
         [voices_request apiKey]))"

definition speech_request :: "ustring \<Rightarrow> ustring \<Rightarrow> ustring \<Rightarrow> fetch_request" where
  "speech_request apiKey text voiceId =
     \<lparr>url = lit ELEVENLABS_API_BASE @ lit ''/text-to-speech/'' @ voiceId,
      http_method = ''POST'',
      request_headers = [(''Accept'', lit ''audio/mpeg''),
                         (''Content-Type'', lit ''application/json''),
                         (''xi-api-key'', apiKey)],
      request_body = Some \<lparr>tts_text = text, model_id = ''eleven_monolingual_v1'',
                            stability = 1 / 2, similarity_boost = 3 / 4\<rparr>\<rparr>"

definition generateSpeech ::
  "upstream \<Rightarrow> ustring \<Rightarrow> ustring \<Rightarrow> ustring \<Rightarrow> (exn + 8 word list) \<times> fetch_request list" where
  "generateSpeech fetch apiKey text voiceId =
     (if apiKey = [] then (Inl (ElevenLabsError (lit ''API key is required'') None None), [])
      else if text = [] \<or> length (trim text) = 0 then
        (Inl (ElevenLabsError (lit ''Text is required and cannot be empty'') None None), [])
      else if voiceId = [] then (Inl (ElevenLabsError (lit ''Voice ID is required'') None None), [])
      else
        (case fetch (speech_request apiKey text voiceId) of
           Rejects \<Rightarrow> Inl TypeError
         | Resolves response \<Rightarrow>
             if \<not> up_ok response then
               (case up_text response of
                  None \<Rightarrow> Inl TypeError
                | Some errorBody \<Rightarrow>
                    Inl (ElevenLabsError
                           (if up_status response = 401 then lit ''Invalid API key''
                            else if up_status response = 422 then
                              lit ''Invalid request: check text length and voice ID''
                            else if up_status response = 429 then
                              lit ''Rate limit exceeded: please try again later''
                            else lit ''Failed to generate speech: '' @ up_statusText response)
                           (Some (up_status response)) (Some errorBody)))
             else
               (case up_arrayBuffer response of
                  None \<Rightarrow> Inl TypeError
                | Some audio \<Rightarrow> Inr audio),
         [speech_request apiKey text voiceId]))"

section \<open>Server proxy endpoints\<close>

datatype body = Json json | Bytes "8 word list"

record response =
  res_status :: nat
  res_headers :: "(string \<times> string) list"
  res_body :: body

text \<open>A response with a JSON body and the given status.\<close>

definition json_response :: "json \<Rightarrow> nat \<Rightarrow> response" where
  "json_response v st =
     \<lparr>res_status = st, res_headers = [(''content-type'', ''application/json'')], res_body = Json v\<rparr>"

text \<open>
  \<open>NextResponse.json(value, { status })\<close> goes through \<open>Response.json\<close>, which refuses a
  status outside 200 to 599 with a \<open>RangeError\<close> and, as the body is not null, a status
  that allows no body (204, 205, 304; 101 and 103 are already out of range) with a
  \<open>TypeError\<close>. Writes to the console are left out of the model.
\<close>

definition NextResponse_json :: "json \<Rightarrow> nat \<Rightarrow> exn + response" where
  "NextResponse_json v st =
     (if st < 200 \<or> 599 < st then Inl RangeError
      else if st = 204 \<or> st = 205 \<or> st = 304 then Inl TypeError
      else Inr (json_response v st))"

text \<open>The object \<open>{ success: false, error: message }\<close>.\<close>

definition error_envelope :: "string \<Rightarrow> json" where
  "error_envelope message = JObj [(lit ''success'', JBool False), (lit ''error'', JStr (lit message))]"

text \<open>
  What a handler did: the response returned (or the exception that escaped it), the calls
  it made to the provider client's \<open>generateSpeech\<close> with their arguments, and the requests
  sent upstream.
\<close>

record handled =
  outcome :: "exn + response"
  synthesize_calls :: "(ustring \<times> ustring \<times> ustring) list"
  upstream_calls :: "fetch_request list"

text \<open>
  \<open>return NextResponse.json(...)\<close> before any call of the provider client: the response, or
  the exception of the constructor, which nothing catches at these places.
\<close>

definition returns :: "exn + response \<Rightarrow> handled" where
  "returns r = \<lparr>outcome = r, synthesize_calls = [], upstream_calls = []\<rparr>"

definition throws :: "exn \<Rightarrow> handled" where
  "throws e = \<lparr>outcome = Inl e, synthesize_calls = [], upstream_calls = []\<rparr>"

text \<open>
  \<open>process.env.ELEVENLABS_API_KEY\<close> is a string or \<open>undefined\<close> (\<open>None\<close>). The test
  \<open>!apiKey || apiKey === "your_key_here"\<close> holds for \<open>undefined\<close>, the empty string and the
  placeholder; \<open>api_key\<close> gives the string the rest of the handler goes on with.
\<close>

definition not_configured :: "ustring option \<Rightarrow> bool" where
  "not_configured apiKey =
     (case apiKey of None \<Rightarrow> True | Some k \<Rightarrow> k = [] \<or> k = lit ''your_key_here'')"

fun api_key :: "ustring option \<Rightarrow> ustring" where
  "api_key (Some k) = k"
| "api_key None = []"

subsection \<open>GET /api/voices\<close>

definition GET :: "upstream \<Rightarrow> ustring option \<Rightarrow> handled" where
  "GET fetch apiKey =
     (if not_configured apiKey then
        returns (NextResponse_json (error_envelope ''Server configuration error: API key not set'') 500)
      else
        (case fetchElevenLabsVoices fetch (api_key apiKey) of
           (Inr voices, sent) \<Rightarrow>
             \<lparr>outcome = NextResponse_json
                  (JObj [(lit ''success'', JBool True),
                         (lit ''voices'', JArr (map (\<lambda>v. JObj (stringify_object v)) voices))]) 200,
              synthesize_calls = [], upstream_calls = sent\<rparr>
         | (Inl (ElevenLabsError msg sc rb), sent) \<Rightarrow>
             (let statusCode = (case sc of None \<Rightarrow> 500 | Some c \<Rightarrow> if c = 0 then 500 else c);
                  clientMessage =
                    (if statusCode = 401 then ''Invalid API key configuration''
                     else if statusCode = 429 then ''Rate limit exceeded, please try again later''
                     else ''Failed to fetch voices'')
              in \<lparr>outcome = NextResponse_json (error_envelope clientMessage)
                               (if statusCode \<ge> 500 then 500 else statusCode),
                  synthesize_calls = [], upstream_calls = sent\<rparr>)
         | (Inl other, sent) \<Rightarrow>
             \<lparr>outcome = NextResponse_json (error_envelope ''An unexpected error occurred'') 500,
              synthesize_calls = [], upstream_calls = sent\<rparr>))"

subsection \<open>POST /api/generate-voice\<close>

text \<open>
  The constant \<open>MAX_TEXT_LENGTH\<close> comes from a module that is not part of the sources at
  hand, so it is a parameter, together with the host's \<open>toLocaleString\<close>.
\<close>

record config =
  MAX_TEXT_LENGTH :: nat
  toLocaleString :: "nat \<Rightarrow> string"

definition MIN_TEXT_LENGTH :: nat where
  "MIN_TEXT_LENGTH = 1"

text \<open>\<open>await request.json()\<close>: rejects on a body that is not JSON.\<close>

datatype request_json = Malformed | Parsed json

text \<open>The response to a successful synthesis.\<close>

definition audio_response :: "8 word list \<Rightarrow> response" where
  "audio_response audioBuffer =
     \<lparr>res_status = 200,
      res_headers = [(''Content-Type'', ''audio/mpeg''),
                 (''Content-Length'', toString (length audioBuffer)),
                 (''Cache-Control'', ''private, max-age=3600''),
                 (''Content-Disposition'', ''inline; filename=\"generated-audio.mp3\"'')],
      res_body = Bytes audioBuffer\<rparr>"

text \<open>
  The \<open>catch\<close> block around the call of \<open>generateSpeech\<close>: the response it returns, or
  the exception of \<open>NextResponse.json\<close>, which then escapes the handler.
\<close>

definition POST_catch :: "exn \<Rightarrow> exn + response" where
  "POST_catch error =
     (case error of
        ElevenLabsError msg sc rb \<Rightarrow>
          (let statusCode = (case sc of None \<Rightarrow> 500 | Some c \<Rightarrow> if c = 0 then 500 else c);
               clientMessage =
                 (if statusCode = 401 then ''Authentication failed with speech service''
                  else if statusCode = 422 then
                    ''Invalid request: please check your text and try again''
                  else if statusCode = 429 then
                    ''Speech service rate limit exceeded, please try again later''
                  else ''Failed to generate speech'')
           in NextResponse_json (error_envelope clientMessage)
                (if statusCode \<ge> 500 then 500 else statusCode))
      | TypeError \<Rightarrow>
          NextResponse_json (error_envelope ''An unexpected error occurred while generating speech'') 500
      | SyntaxError \<Rightarrow>
          NextResponse_json (error_envelope ''An unexpected error occurred while generating speech'') 500
      | RangeError \<Rightarrow>
          NextResponse_json (error_envelope ''An unexpected error occurred while generating speech'') 500)"

definition POST :: "config \<Rightarrow> upstream \<Rightarrow> ustring option \<Rightarrow> request_json \<Rightarrow> handled" where
  "POST cfg fetch apiKey request =
     (if not_configured apiKey then
        returns (NextResponse_json (error_envelope ''Server configuration error: API key not set'') 500)
      else
        (case request of
           Malformed \<Rightarrow> returns (NextResponse_json (error_envelope ''Invalid JSON in request body'') 400)
         | Parsed body \<Rightarrow>
            (case get_prop body (lit ''text'') of Inl e \<Rightarrow> throws e | Inr text \<Rightarrow>
             case get_prop body (lit ''voice_id'') of Inl e \<Rightarrow> throws e | Inr voice_id \<Rightarrow>
               if \<not> truthy text \<or> \<not> typeof_string text then
                 returns (NextResponse_json (error_envelope ''Text is required and must be a string'') 400)
               else
                 (let trimmedText = trim (string_of text) in
                  if length trimmedText < MIN_TEXT_LENGTH then
                    returns (NextResponse_json (error_envelope ''Text cannot be empty'') 400)
                  else if length (string_of text) > MAX_TEXT_LENGTH cfg then
                    returns (NextResponse_json
                      (error_envelope (''Text exceeds maximum length of ''
                                        @ toLocaleString cfg (MAX_TEXT_LENGTH cfg) @ '' characters'')) 400)
                  else if \<not> truthy voice_id \<or> \<not> typeof_string voice_id then
                    returns (NextResponse_json
                      (error_envelope ''Voice ID is required and must be a string'') 400)
                  else
                    (case generateSpeech fetch (api_key apiKey) trimmedText (string_of voice_id) of
                       (Inr audioBuffer, sent) \<Rightarrow>
                         \<lparr>outcome = Inr (audio_response audioBuffer),
                          synthesize_calls =
                            [(api_key apiKey, trimmedText, string_of voice_id)],
                          upstream_calls = sent\<rparr>
                     | (Inl error, sent) \<Rightarrow>
                         \<lparr>outcome = POST_catch error,
                          synthesize_calls =
                            [(api_key apiKey, trimmedText, string_of voice_id)],
                          upstream_calls = sent\<rparr>)))))"

section \<open>Client orchestrator\<close>

subsection \<open>Object URLs\<close>

text \<open>
  \<open>URL.createObjectURL\<close> hands out a fresh URL at every call; the URLs are numbered in the
  order of their creation. The browser state is the number of URLs created and the
  arguments of the calls of \<open>URL.revokeObjectURL\<close>, oldest first. A URL is live when it was
  created and not revoked.
\<close>

record browser =
  created :: nat
  revoked :: "nat list"

definition createObjectURL :: "browser \<Rightarrow> nat \<times> browser" where
  "createObjectURL b = (created b, b\<lparr>created := Suc (created b)\<rparr>)"

definition revokeObjectURL :: "nat \<Rightarrow> browser \<Rightarrow> browser" where
  "revokeObjectURL u b = b\<lparr>revoked := revoked b @ [u]\<rparr>"

definition live_urls :: "browser \<Rightarrow> nat list" where
  "live_urls b = filter (\<lambda>u. u \<notin> set (revoked b)) [0..<created b]"

subsection \<open>State of the page component\<close>

text \<open>
  The \<open>useState\<close> cells of \<open>Home\<close>. The error cell holds whatever \<open>setError\<close> was given:
  one of the fixed messages, or the \<open>error\<close> property of a response body.
\<close>

record home =
  storyText :: ustring
  voices :: json
  selectedVoiceId :: "ustring option"
  audioUrl :: "nat option"
  isLoadingVoices :: bool
  isGenerating :: bool
  error :: "json option"

text \<open>The body of the request to \<open>/api/generate-voice\<close>.\<close>

record generate_request =
  gr_text :: ustring
  gr_voice_id :: ustring

text \<open>
  What \<open>handleGenerate\<close> reads of the response: the status, the \<open>Content-Type\<close> header
  (\<open>None\<close> when absent), and the results of \<open>response.json()\<close> and \<open>response.blob()\<close>
  (\<open>None\<close> when they reject).
\<close>

record client_response =
  cr_status :: nat
  cr_contentType :: "ustring option"
  cr_json :: "json option"
  cr_blob :: "8 word list option"

datatype client_fetch = FetchRejects | FetchResolves client_response

definition cr_ok :: "client_response \<Rightarrow> bool" where
  "cr_ok r = (200 \<le> cr_status r \<and> cr_status r \<le> 299)"

text \<open>
  The component in its environment: the state cells, whether the component is mounted,
  the \<open>currentUrl\<close> captured by the cleanup function that the last run of the URL effect
  returned, the request in flight, whether the voices request is in flight, the browser's
  object URLs, and the generate requests sent so far.
\<close>

record world =
  state :: home
  mounted :: bool
  cleanup_url :: "nat option"
  pending :: "generate_request option"
  voices_pending :: bool
  browser :: browser
  requests :: "generate_request list"

text \<open>A state setter; React ignores it once the component is unmounted.\<close>

definition set_state :: "(home \<Rightarrow> home) \<Rightarrow> world \<Rightarrow> world" where
  "set_state f w = (if mounted w then w\<lparr>state := f (state w)\<rparr> else w)"

definition initial :: world where
  "initial =
     \<lparr>state = \<lparr>storyText = [], voices = JArr [], selectedVoiceId = None, audioUrl = None,
               isLoadingVoices = True, isGenerating = False, error = None\<rparr>,
      mounted = True, cleanup_url = None, pending = None, voices_pending = True,
      browser = \<lparr>created = 0, revoked = []\<rparr>, requests = []\<rparr>"

subsection \<open>The URL effect\<close>

text \<open>
  \<open>useEffect(() => { const currentUrl = audioUrl; return () => { if (currentUrl)
  URL.revokeObjectURL(currentUrl); }; }, [audioUrl])\<close>. After a render in which \<open>audioUrl\<close>
  differs from its value at the last run of the effect, React calls the cleanup function
  of that run and runs the effect again; at unmount it calls the last cleanup function.
\<close>

definition run_cleanup :: "world \<Rightarrow> world" where
  "run_cleanup w =
     (case cleanup_url w of
        None \<Rightarrow> w
      | Some currentUrl \<Rightarrow> w\<lparr>browser := revokeObjectURL currentUrl (browser w)\<rparr>)"

definition commit :: "world \<Rightarrow> world" where
  "commit w =
     (if \<not> mounted w \<or> audioUrl (state w) = cleanup_url w then w
      else (run_cleanup w)\<lparr>cleanup_url := audioUrl (state w)\<rparr>)"

definition unmount :: "world \<Rightarrow> world" where
  "unmount w = (if mounted w then (run_cleanup w)\<lparr>mounted := False\<rparr> else w)"

subsection \<open>Loading the voices\<close>

text \<open>
  The part of \<open>loadVoices\<close> after \<open>await response.json()\<close>; the argument is the parsed body,
  or \<open>None\<close> when the request or the parsing failed.
\<close>

definition loadVoices_resume :: "json option \<Rightarrow> world \<Rightarrow> world" where
  "loadVoices_resume result w =
     (let failed = set_state (\<lambda>s. s\<lparr>error := Some (JStr (lit ''Failed to connect to server''))\<rparr>) w;
          w' =
            (case result of
               None \<Rightarrow> failed
             | Some data \<Rightarrow>
                 (case get_prop data (lit ''success'') of
                    Inl e \<Rightarrow> failed
                  | Inr success \<Rightarrow>
                      (case get_prop data (lit ''voices'') of
                         Inl e \<Rightarrow> failed
                       | Inr vs \<Rightarrow>
                           (case get_prop data (lit ''error'') of
                              Inl e \<Rightarrow> failed
                            | Inr err \<Rightarrow>
                                if truthy success \<and> truthy vs then
                                  set_state (\<lambda>s. s\<lparr>voices := (case vs of Some v \<Rightarrow> v | None \<Rightarrow> JNull)\<rparr>) w
                                else
                                  set_state (\<lambda>s. s\<lparr>error :=
                                    (if truthy err then err
                                     else Some (JStr (lit ''Failed to load voices'')))\<rparr>) w))))
      in set_state (\<lambda>s. s\<lparr>isLoadingVoices := False\<rparr>) (w'\<lparr>voices_pending := False\<rparr>))"

subsection \<open>Generating audio\<close>

text \<open>\<open>!storyText.trim() || !selectedVoiceId\<close>.\<close>

definition guard :: "home \<Rightarrow> bool" where
  "guard s = (trim (storyText s) = [] \<or>
              (case selectedVoiceId s of None \<Rightarrow> True | Some v \<Rightarrow> v = []))"

text \<open>
  \<open>handleGenerate\<close> up to \<open>await fetch(...)\<close>: the guard, the three setters, and the request.
\<close>

definition handleGenerate_start :: "world \<Rightarrow> world" where
  "handleGenerate_start w =
     (if guard (state w) then w
      else
        (let rq = \<lparr>gr_text = storyText (state w),
                   gr_voice_id = (case selectedVoiceId (state w) of Some v \<Rightarrow> v | None \<Rightarrow> [])\<rparr>;
             w' = set_state (\<lambda>s. s\<lparr>isGenerating := True, error := None, audioUrl := None\<rparr>) w
         in w'\<lparr>requests := requests w' @ [rq], pending := Some rq\<rparr>))"

text \<open>
  \<open>handleGenerate\<close> from the point where the request settles: the rest of the \<open>try\<close> block,
  the \<open>catch\<close> block (\<open>caught\<close>) and the \<open>finally\<close> block.
\<close>

definition handleGenerate_resume :: "client_fetch \<Rightarrow> world \<Rightarrow> world" where
  "handleGenerate_resume settled w =
     (let caught = set_state (\<lambda>s. s\<lparr>error := Some (JStr (lit ''Network error. Please try again.''))\<rparr>) w;
          w' =
            (case settled of
               FetchRejects \<Rightarrow> caught
             | FetchResolves response \<Rightarrow>
                 if \<not> cr_ok response then
                   (case cr_json response of
                      None \<Rightarrow> caught
                    | Some data \<Rightarrow>
                        (case get_prop data (lit ''error'') of
                           Inl e \<Rightarrow> caught
                         | Inr err \<Rightarrow>
                             set_state (\<lambda>s. s\<lparr>error :=
                               (if truthy err then err
                                else Some (JStr (lit (''Generation failed (''
                                       @ toString (cr_status response) @ '')''))))\<rparr>) w))
                 else if (case cr_contentType response of
                            None \<Rightarrow> False
                          | Some contentType \<Rightarrow> includes_str contentType (lit ''audio/mpeg'')) then
                   (case cr_blob response of
                      None \<Rightarrow> caught
                    | Some blob \<Rightarrow>
                        (case createObjectURL (browser w) of
                           (u, b) \<Rightarrow> set_state (\<lambda>s. s\<lparr>audioUrl := Some u\<rparr>) (w\<lparr>browser := b\<rparr>)))
                 else
                   set_state (\<lambda>s. s\<lparr>error :=
                     Some (JStr (lit ''Unexpected response format from server''))\<rparr>) w)
      in set_state (\<lambda>s. s\<lparr>isGenerating := False\<rparr>) (w'\<lparr>pending := None\<rparr>))"

text \<open>One whole run of \<open>handleGenerate\<close>, given how its request settles.\<close>

definition handleGenerate :: "client_fetch \<Rightarrow> world \<Rightarrow> world" where
  "handleGenerate settled w =
     (if guard (state w) then w else handleGenerate_resume settled (handleGenerate_start w))"

subsection \<open>Events\<close>

text \<open>
  What can happen to the mounted page, each followed by React's render and the effects:
  the voices request settles; the user edits the text (the input is disabled while
  generating and refuses a text longer than \<open>maxLength\<close>); the user picks a voice (the
  selector is disabled while generating or loading); the user clicks the button (disabled
  when \<open>isGenerateDisabled\<close> or \<open>isGenerating\<close>); the generate request settles; the audio
  element reports an error; the page is torn down. A request in flight still settles
  after the teardown, and its continuation runs.
\<close>

datatype event =
    VoicesSettle "json option"
  | Input ustring
  | Select ustring
  | Click
  | Settle client_fetch
  | PlaybackError
  | Teardown

definition isGenerateDisabled :: "home \<Rightarrow> bool" where
  "isGenerateDisabled s = (guard s \<or> isLoadingVoices s)"

fun step :: "nat \<Rightarrow> world \<Rightarrow> event \<Rightarrow> world" where
  "step maxLength w (VoicesSettle result) =
     (if voices_pending w then commit (loadVoices_resume result w) else w)"
| "step maxLength w (Input newValue) =
     (if mounted w \<and> \<not> isGenerating (state w) \<and> length newValue \<le> maxLength then
        commit (set_state (\<lambda>s. s\<lparr>storyText := newValue\<rparr>) w)
      else w)"
| "step maxLength w (Select voiceId) =
     (if mounted w \<and> \<not> isGenerating (state w) \<and> \<not> isLoadingVoices (state w) then
        commit (set_state (\<lambda>s. s\<lparr>selectedVoiceId := Some voiceId\<rparr>) w)
      else w)"
| "step maxLength w Click =
     (if mounted w \<and> \<not> isGenerateDisabled (state w) \<and> \<not> isGenerating (state w) then
        commit (handleGenerate_start w)
      else w)"
| "step maxLength w (Settle settled) =
     (case pending w of
        None \<Rightarrow> w
      | Some rq \<Rightarrow> commit (handleGenerate_resume settled w))"
| "step maxLength w PlaybackError =
     (if mounted w \<and> audioUrl (state w) \<noteq> None then
        commit (set_state (\<lambda>s. s\<lparr>error := Some (JStr (lit ''Failed to play audio''))\<rparr>) w)
      else w)"
| "step maxLength w Teardown = unmount w"

definition run :: "nat \<Rightarrow> event list \<Rightarrow> world \<Rightarrow> world" where
  "run maxLength evs w = foldl (step maxLength) w evs"

text \<open>A successful answer of the generate endpoint with the given bytes.\<close>

definition audio_reply :: "8 word list \<Rightarrow> client_fetch" where
  "audio_reply bytes = FetchResolves \<lparr>cr_status = 200, cr_contentType = Some (lit ''audio/mpeg''),
     cr_json = None, cr_blob = Some bytes\<rparr>"

text \<open>One click answered by each of the given payloads in turn.\<close>

definition generations :: "8 word list list \<Rightarrow> event list" where
  "generations payloads = concat (map (\<lambda>bytes. [Click, Settle (audio_reply bytes)]) payloads)"

section \<open>The validation order as specified\<close>

text \<open>
  The request checks in the order the specification lists them, written over the parsed
  body without reference to the handler: the field of an object when it holds a string,
  and the message of the first check that fails (\<open>None\<close> when the request is accepted).
\<close>

fun string_field :: "json \<Rightarrow> string \<Rightarrow> ustring option" where
  "string_field (JObj kvs) k = (case map_of (rev kvs) (lit k) of Some (JStr s) \<Rightarrow> Some s | _ \<Rightarrow> None)"
| "string_field v k = None"

definition validation_failure :: "config \<Rightarrow> request_json \<Rightarrow> string option" where
  "validation_failure cfg request =
     (case request of
        Malformed \<Rightarrow> Some ''Invalid JSON in request body''
      | Parsed b \<Rightarrow>
          (case string_field b ''text'' of
             None \<Rightarrow> Some ''Text is required and must be a string''
           | Some t \<Rightarrow>
               if t = [] then Some ''Text is required and must be a string''
               else if (\<forall>c\<in>set t. isWhiteSpace c) then Some ''Text cannot be empty''
               else if length t > MAX_TEXT_LENGTH cfg then
                 Some (''Text exceeds maximum length of ''
                        @ toLocaleString cfg (MAX_TEXT_LENGTH cfg) @ '' characters'')
               else
                 (case string_field b ''voice_id'' of
                    None \<Rightarrow> Some ''Voice ID is required and must be a string''
                  | Some v \<Rightarrow>
                      if v = [] then Some ''Voice ID is required and must be a string''
                      else None)))"

text \<open>The number a string of decimal digits denotes.\<close>

definition digit_value :: "char \<Rightarrow> nat" where
  "digit_value c = of_char c - 48"

definition decimal_value :: "string \<Rightarrow> nat" where
  "decimal_value s = foldl (\<lambda>n c. 10 * n + digit_value c) 0 s"

section \<open>The voices envelope as specified\<close>

text \<open>
  The four keys a voice may carry, the test that a JSON value is an object with no other
  key, and the response to a failure that is not a classified provider error.
\<close>

definition voice_keys :: "ustring list" where
  "voice_keys = map lit [''voice_id'', ''name'', ''description'', ''category'']"

fun only_voice_fields :: "json \<Rightarrow> bool" where
  "only_voice_fields (JObj fs) = (\<forall>k\<in>set (map fst fs). k \<in> set voice_keys)"
| "only_voice_fields v = False"

definition unexpected_error :: response where
  "unexpected_error = json_response (error_envelope ''An unexpected error occurred'') 500"

section \<open>Invariants of the page component\<close>

text \<open>
  The URL the state holds, as a list; the invariant of the reachable worlds (no URL is
  revoked twice or before its creation; while the page is mounted the live URLs are
  exactly the one the state holds, the cleanup function captures it, and no URL is held
  while a request is in flight; after the teardown at most one URL is live, and none
  while a request is still in flight); worlds that differ only in fields the URL effect
  does not read; and the worlds in which the button is enabled and no request is in flight.
\<close>

definition held :: "world \<Rightarrow> nat list" where
  "held w = (case audioUrl (state w) of None \<Rightarrow> [] | Some u \<Rightarrow> [u])"

definition consistent :: "world \<Rightarrow> bool" where
  "consistent w =
     (distinct (revoked (browser w))
      \<and> (\<forall>u\<in>set (revoked (browser w)). u < created (browser w))
      \<and> (if mounted w then
            cleanup_url w = audioUrl (state w) \<and> live_urls (browser w) = held w
            \<and> (pending w = None \<or> audioUrl (state w) = None)
          else if pending w = None then length (live_urls (browser w)) \<le> 1
          else live_urls (browser w) = []))"

definition same_frame :: "world \<Rightarrow> world \<Rightarrow> bool" where
  "same_frame w' w = (browser w' = browser w \<and> mounted w' = mounted w \<and> cleanup_url w' = cleanup_url w
     \<and> pending w' = pending w \<and> audioUrl (state w') = audioUrl (state w))"

definition ready :: "world \<Rightarrow> bool" where
  "ready w = (mounted w \<and> \<not> isGenerateDisabled (state w) \<and> \<not> isGenerating (state w)
     \<and> pending w = None \<and> cleanup_url w = audioUrl (state w))"

section \<open>Sample inputs\<close>

text \<open>
  A configuration with a small limit, a configured credential, a request body with a given
  text and the voice \<open>v1\<close>, and an upstream reply with a given status whose error body is
  \<open>{"detail":"x"}\<close> and whose payload is three bytes.
\<close>

definition sample_config :: config where
  "sample_config = \<lparr>MAX_TEXT_LENGTH = 5, toLocaleString = toLocaleString_enUS\<rparr>"

definition sample_key :: "ustring option" where
  "sample_key = Some (lit ''sk_test'')"

definition sample_body :: "ustring \<Rightarrow> json" where
  "sample_body t = JObj [(lit ''text'', JStr t), (lit ''voice_id'', JStr (lit ''v1''))]"

definition reply :: "nat \<Rightarrow> upstream_response" where
  "reply st = \<lparr>up_status = st, up_statusText = [], up_text = Some (lit ''{\"detail\":\"x\"}''),
     up_json = None, up_arrayBuffer = Some [0x49, 0x44, 0x33]\<rparr>"

text \<open>A voice catalogue with one voice, which has a field the endpoint drops.\<close>

definition sample_voices :: json where
  "sample_voices = JObj [(lit ''voices'', JArr [JObj [(lit ''voice_id'', JStr (lit ''v1'')),
      (lit ''name'', JStr (lit ''Rachel'')), (lit ''category'', JStr (lit ''premade'')),
      (lit ''preview_url'', JStr (lit ''https://x/y.mp3''))]])]"

definition voices_reply :: upstream_response where
  "voices_reply = \<lparr>up_status = 200, up_statusText = lit ''OK'', up_text = None,
     up_json = Some sample_voices, up_arrayBuffer = None\<rparr>"

text \<open>
  The page after the voices have loaded, a text was typed and a voice picked; three
  payloads; the same page with a blank text; and answers of the generate endpoint that are
  not audio.
\<close>

definition sample_setup :: "event list" where
  "sample_setup = [VoicesSettle (Some (JObj [(lit ''success'', JBool True),
       (lit ''voices'', JArr [JObj [(lit ''voice_id'', JStr (lit ''v1''))]])])),
     Input (lit ''Once upon a time''), Select (lit ''v1'')]"

definition sample_payloads :: "8 word list list" where
  "sample_payloads = [[0x49], [0x44], [0x33]]"

definition sample_ready :: world where
  "sample_ready = run 100 sample_setup initial"

definition sample_blank :: world where
  "sample_blank = run 100 [VoicesSettle (Some (JObj [(lit ''success'', JBool True),
       (lit ''voices'', JArr [JObj [(lit ''voice_id'', JStr (lit ''v1''))]])])),
     Input (lit ''   ''), Select (lit ''v1'')] initial"

definition rate_limited :: client_fetch where
  "rate_limited = FetchResolves \<lparr>cr_status = 429, cr_contentType = Some (lit ''application/json''),
     cr_json = Some (JObj [(lit ''success'', JBool False), (lit ''error'', JStr (lit ''rate limited''))]),
     cr_blob = None\<rparr>"

definition wrong_type :: client_fetch where
  "wrong_type = FetchResolves \<lparr>cr_status = 200, cr_contentType = Some (lit ''text/html''),
     cr_json = None, cr_blob = Some [0x3C]\<rparr>"

section \<open>Properties of the string functions\<close>

lemma dropWhile_hd_not: "dropWhile P xs \<noteq> [] \<Longrightarrow> \<not> P (hd (dropWhile P xs))"
  by (simp add: hd_dropWhile)

lemma trim_empty_iff: "trim s = [] \<longleftrightarrow> (\<forall>c\<in>set s. isWhiteSpace c)"
proof
  assume e: "trim s = []"
  show "\<forall>c\<in>set s. isWhiteSpace c"
  proof (rule ccontr)
    assume "\<not> (\<forall>c\<in>set s. isWhiteSpace c)"
    then have ne: "dropWhile isWhiteSpace s \<noteq> []" by (simp add: dropWhile_eq_Nil_conv)
    then have "\<not> isWhiteSpace (hd (dropWhile isWhiteSpace s))" by (rule dropWhile_hd_not)
    moreover have "hd (dropWhile isWhiteSpace s) \<in> set (rev (dropWhile isWhiteSpace s))"
      using ne by simp
    ultimately have "dropWhile isWhiteSpace (rev (dropWhile isWhiteSpace s)) \<noteq> []"
      by (metis dropWhile_eq_Nil_conv)
    with e show False by (simp add: trim_def)
  qed
next
  assume "\<forall>c\<in>set s. isWhiteSpace c"
  then have "dropWhile isWhiteSpace s = []" by (simp add: dropWhile_eq_Nil_conv)
  then show "trim s = []" unfolding trim_def by (simp del: dropWhile_eq_Nil_conv)
qed

lemma trim_last: assumes "trim s \<noteq> []" shows "\<not> isWhiteSpace (last (trim s))"
proof -
  let ?ys = "rev (dropWhile isWhiteSpace s)"
  from assms have ne: "dropWhile isWhiteSpace ?ys \<noteq> []" by (simp add: trim_def)
  have "last (trim s) = hd (dropWhile isWhiteSpace ?ys)"
    using ne by (simp add: trim_def last_rev)
  with dropWhile_hd_not [OF ne] show ?thesis by simp
qed

lemma trim_hd: assumes "trim s \<noteq> []" shows "\<not> isWhiteSpace (hd (trim s))"
proof -
  let ?xs = "dropWhile isWhiteSpace s"
  have split: "trim s @ rev (takeWhile isWhiteSpace (rev ?xs)) = ?xs"
  proof -
    have "rev (takeWhile isWhiteSpace (rev ?xs) @ dropWhile isWhiteSpace (rev ?xs)) = ?xs"
      by simp
    then show ?thesis unfolding rev_append trim_def .
  qed
  from assms split have ne: "?xs \<noteq> []" by (metis append_is_Nil_conv)
  from assms split have "hd ?xs = hd (trim s)" by (metis hd_append2)
  with dropWhile_hd_not [OF ne] show ?thesis by simp
qed

lemma dropWhile_id: "xs \<noteq> [] \<Longrightarrow> \<not> P (hd xs) \<Longrightarrow> dropWhile P xs = xs"
  by (cases xs) auto

lemma trim_idem: "trim (trim s) = trim s"
proof (cases "trim s = []")
  case True
  have "trim [] = []" by (simp add: trim_def)
  then show ?thesis unfolding True .
next
  case False
  have a: "dropWhile isWhiteSpace (trim s) = trim s"
    using False trim_hd [OF False] by (rule dropWhile_id)
  have "rev (trim s) \<noteq> []" using False by simp
  moreover have "\<not> isWhiteSpace (hd (rev (trim s)))"
    using trim_last [OF False] False by (simp add: hd_rev)
  ultimately have b: "dropWhile isWhiteSpace (rev (trim s)) = rev (trim s)"
    by (rule dropWhile_id)
  show ?thesis
    unfolding trim_def [of "trim s"] a b by simp
qed

lemma length_trim_le: "length (trim s) \<le> length s"
proof -
  have "length (dropWhile isWhiteSpace (rev (dropWhile isWhiteSpace s))) \<le> length (rev (dropWhile isWhiteSpace s))"
    by (rule length_dropWhile_le)
  also have "\<dots> \<le> length s" by (simp add: length_dropWhile_le)
  finally show ?thesis by (simp add: trim_def)
qed

lemma digit_value_digit_char:
  assumes "d < 10"
  shows "digit_value (digit_char d) = d"
proof -
  from assms have "d \<in> {0, 1, 2, 3, 4, 5, 6, 7, 8, 9}" by auto
  then show ?thesis by (auto simp add: digit_value_def digit_char_def)
qed

lemma decimal_value_toString: "decimal_value (toString n) = n"
proof (induction n rule: toString.induct)
  case (1 n)
  show ?case
  proof (cases "n < 10")
    case True
    then show ?thesis
      by (subst toString.simps) (simp add: decimal_value_def digit_value_digit_char)
  next
    case False
    with 1 have "decimal_value (toString (n div 10)) = n div 10" by simp
    with False show ?thesis
      by (subst toString.simps) (simp add: decimal_value_def digit_value_digit_char)
  qed
qed

section \<open>What the generate endpoint computes\<close>

lemma NextResponse_json_fixed:
  "NextResponse_json v 200 = Inr (json_response v 200)"
  "NextResponse_json v 400 = Inr (json_response v 400)"
  "NextResponse_json v 500 = Inr (json_response v 500)"
  by (simp_all add: NextResponse_json_def)

lemma trim_too_short: "length (trim t) < MIN_TEXT_LENGTH \<longleftrightarrow> (\<forall>c\<in>set t. isWhiteSpace c)"
  using trim_empty_iff [of t] by (simp add: MIN_TEXT_LENGTH_def)

lemma string_field_prop:
  "b \<noteq> JNull \<Longrightarrow> \<exists>x. get_prop b (lit k) = Inr x \<and>
     string_field b k = (if typeof_string x then Some (string_of x) else None)"
proof (cases b)
  case (JObj kvs)
  show ?thesis
  proof (cases "map_of (rev kvs) (lit k)")
    case None
    with JObj show ?thesis by simp
  next
    case (Some j)
    with JObj show ?thesis by (cases j) simp_all
  qed
qed simp_all

lemma truthy_string: "typeof_string x \<Longrightarrow> truthy x \<longleftrightarrow> string_of x \<noteq> []"
  by (induction x rule: typeof_string.induct) simp_all

lemma POST_configured:
  assumes "\<not> not_configured apiKey" and "b \<noteq> JNull"
  shows "POST cfg fetch apiKey (Parsed b) =
    (case validation_failure cfg (Parsed b) of
       Some message \<Rightarrow> returns (Inr (json_response (error_envelope message) 400))
     | None \<Rightarrow>
        (let call = (api_key apiKey, trim (the (string_field b ''text'')), the (string_field b ''voice_id''))
         in case generateSpeech fetch (fst call) (fst (snd call)) (snd (snd call)) of
              (Inr audioBuffer, sent) \<Rightarrow>
                 \<lparr>outcome = Inr (audio_response audioBuffer), synthesize_calls = [call], upstream_calls = sent\<rparr>
            | (Inl e, sent) \<Rightarrow>
                 \<lparr>outcome = POST_catch e, synthesize_calls = [call], upstream_calls = sent\<rparr>))"
proof -
  obtain x where x: "get_prop b (lit ''text'') = Inr x"
    "string_field b ''text'' = (if typeof_string x then Some (string_of x) else None)"
    using string_field_prop [OF assms(2)] by blast
  obtain y where y: "get_prop b (lit ''voice_id'') = Inr y"
    "string_field b ''voice_id'' = (if typeof_string y then Some (string_of y) else None)"
    using string_field_prop [OF assms(2)] by blast
  show ?thesis
    using assms(1) x y
    by (simp add: POST_def validation_failure_def trim_too_short truthy_string Let_def
        NextResponse_json_fixed)
qed

lemma configured_key: "\<not> not_configured apiKey \<Longrightarrow> api_key apiKey \<noteq> []"
  by (cases apiKey) (simp_all add: not_configured_def)

lemma validation_passed:
  assumes "validation_failure cfg (Parsed b) = None"
  shows "b \<noteq> JNull"
    and "\<exists>t. string_field b ''text'' = Some t \<and> trim t \<noteq> [] \<and> length t \<le> MAX_TEXT_LENGTH cfg"
    and "\<exists>v. string_field b ''voice_id'' = Some v \<and> v \<noteq> []"
  using assms
  by (auto simp add: validation_failure_def trim_empty_iff split: option.splits if_splits)

lemma generateSpeech_sends:
  assumes "k \<noteq> []" and "trim t \<noteq> []" and "v \<noteq> []"
  shows "generateSpeech fetch k (trim t) v =
    (case fetch (speech_request k (trim t) v) of
       Rejects \<Rightarrow> Inl TypeError
     | Resolves response \<Rightarrow>
         if \<not> up_ok response then
           (case up_text response of
              None \<Rightarrow> Inl TypeError
            | Some errorBody \<Rightarrow>
                Inl (ElevenLabsError
                       (if up_status response = 401 then lit ''Invalid API key''
                        else if up_status response = 422 then
                          lit ''Invalid request: check text length and voice ID''
                        else if up_status response = 429 then
                          lit ''Rate limit exceeded: please try again later''
                        else lit ''Failed to generate speech: '' @ up_statusText response)
                       (Some (up_status response)) (Some errorBody)))
         else
           (case up_arrayBuffer response of
              None \<Rightarrow> Inl TypeError
            | Some audio \<Rightarrow> Inr audio),
     [speech_request k (trim t) v])"
  using assms by (simp add: generateSpeech_def trim_idem)

lemma POST_accepted:
  assumes "\<not> not_configured apiKey"
    and "validation_failure cfg (Parsed b) = None"
    and "string_field b ''text'' = Some t"
    and "string_field b ''voice_id'' = Some v"
  shows "POST cfg fetch apiKey (Parsed b) =
    (case generateSpeech fetch (api_key apiKey) (trim t) v of
       (Inr audioBuffer, sent) \<Rightarrow>
          \<lparr>outcome = Inr (audio_response audioBuffer),
           synthesize_calls = [(api_key apiKey, trim t, v)], upstream_calls = sent\<rparr>
     | (Inl e, sent) \<Rightarrow>
          \<lparr>outcome = POST_catch e,
           synthesize_calls = [(api_key apiKey, trim t, v)], upstream_calls = sent\<rparr>)"
  using POST_configured [OF assms(1) validation_passed(1) [OF assms(2)], of cfg fetch] assms(2,3,4)
  by (simp add: Let_def)


lemma POST_success:
  assumes "\<not> not_configured apiKey"
    and "validation_failure cfg (Parsed b) = None"
    and "string_field b ''text'' = Some t"
    and "string_field b ''voice_id'' = Some v"
    and "fetch (speech_request (api_key apiKey) (trim t) v) = Resolves r"
    and "up_ok r" and "up_arrayBuffer r = Some audio"
  shows "POST cfg fetch apiKey (Parsed b) =
     \<lparr>outcome = Inr (audio_response audio),
      synthesize_calls = [(api_key apiKey, trim t, v)],
      upstream_calls = [speech_request (api_key apiKey) (trim t) v]\<rparr>"
proof -
  from validation_passed(2,3) [OF assms(2)] assms(3,4) have "trim t \<noteq> []" and "v \<noteq> []"
    by auto
  with configured_key [OF assms(1)] assms(5,6,7)
  have "generateSpeech fetch (api_key apiKey) (trim t) v =
      (Inr audio, [speech_request (api_key apiKey) (trim t) v])"
    by (simp add: generateSpeech_sends)
  then show ?thesis by (simp add: POST_accepted [OF assms(1,2,3,4)])
qed

lemma POST_provider_error:
  assumes "\<not> not_configured apiKey"
    and "validation_failure cfg (Parsed b) = None"
    and "string_field b ''text'' = Some t"
    and "string_field b ''voice_id'' = Some v"
    and "fetch (speech_request (api_key apiKey) (trim t) v) = Resolves r"
    and "\<not> up_ok r" and "up_text r = Some errorBody"
  shows "\<exists>m. POST cfg fetch apiKey (Parsed b) =
     \<lparr>outcome = POST_catch (ElevenLabsError m (Some (up_status r)) (Some errorBody)),
      synthesize_calls = [(api_key apiKey, trim t, v)],
      upstream_calls = [speech_request (api_key apiKey) (trim t) v]\<rparr>"
proof -
  from validation_passed(2,3) [OF assms(2)] assms(3,4) have "trim t \<noteq> []" and "v \<noteq> []"
    by auto
  with configured_key [OF assms(1)] assms(5,6,7)
  have "\<exists>m. generateSpeech fetch (api_key apiKey) (trim t) v =
      (Inl (ElevenLabsError m (Some (up_status r)) (Some errorBody)),
       [speech_request (api_key apiKey) (trim t) v])"
    by (simp add: generateSpeech_sends)
  then show ?thesis by (auto simp add: POST_accepted [OF assms(1,2,3,4)])
qed

section \<open>What the voices endpoint computes\<close>

lemma get_prop_not_null: "v \<noteq> JNull \<Longrightarrow> \<exists>x. get_prop v k = Inr x"
  by (cases v) simp_all

lemma stringify_keys: "fst ` set (stringify_object ps) \<subseteq> lit ` fst ` set ps"
  by (induction ps rule: stringify_object.induct) auto

lemma voice_key_distinct:
  "lit ''voice_id'' \<noteq> lit ''name''" "lit ''voice_id'' \<noteq> lit ''description''"
  "lit ''voice_id'' \<noteq> lit ''category''" "lit ''name'' \<noteq> lit ''description''"
  "lit ''name'' \<noteq> lit ''category''" "lit ''description'' \<noteq> lit ''category''"
  by (simp_all add: lit_def)

lemma reduced_fields:
  "get_prop (JObj (stringify_object [(''voice_id'', a), (''name'', b), (''description'', c), (''category'', d)])) (lit ''voice_id'') = Inr a"
  "get_prop (JObj (stringify_object [(''voice_id'', a), (''name'', b), (''description'', c), (''category'', d)])) (lit ''name'') = Inr b"
  "get_prop (JObj (stringify_object [(''voice_id'', a), (''name'', b), (''description'', c), (''category'', d)])) (lit ''description'') = Inr c"
  "get_prop (JObj (stringify_object [(''voice_id'', a), (''name'', b), (''description'', c), (''category'', d)])) (lit ''category'') = Inr d"
  using voice_key_distinct
  by (cases a; cases b; cases c; cases d; simp)+

lemma reduce_voice_ok:
  assumes "voice \<noteq> JNull"
  shows "\<exists>ob. reduce_voice voice = Inr ob \<and> only_voice_fields (JObj (stringify_object ob))
     \<and> (\<forall>k\<in>set voice_keys. get_prop (JObj (stringify_object ob)) k = get_prop voice k)"
proof -
  obtain a b c d where p: "get_prop voice (lit ''voice_id'') = Inr a" "get_prop voice (lit ''name'') = Inr b"
    "get_prop voice (lit ''description'') = Inr c" "get_prop voice (lit ''category'') = Inr d"
    using get_prop_not_null [OF assms] by metis
  let ?o = "[(''voice_id'', a), (''name'', b), (''description'', c), (''category'', d)]"
  have r: "reduce_voice voice = Inr ?o" by (simp add: reduce_voice_def p)
  have "fst ` set (stringify_object ?o) \<subseteq> set voice_keys"
    using stringify_keys [of ?o] by (simp add: voice_keys_def)
  then have k: "only_voice_fields (JObj (stringify_object ?o))" by auto
  have "\<forall>k\<in>set voice_keys. get_prop (JObj (stringify_object ?o)) k = get_prop voice k"
    unfolding voice_keys_def using p by (simp add: reduced_fields del: get_prop.simps)
  with r k show ?thesis by blast
qed

lemma map_voices_ok:
  assumes "JNull \<notin> set vs"
  shows "\<exists>os. map_voices vs = Inr os \<and> length os = length vs
     \<and> (\<forall>i<length vs. only_voice_fields (JObj (stringify_object (os ! i)))
          \<and> (\<forall>k\<in>set voice_keys. get_prop (JObj (stringify_object (os ! i))) k = get_prop (vs ! i) k))"
  using assms
proof (induction vs)
  case Nil
  then show ?case by simp
next
  case (Cons voice rest)
  then have "voice \<noteq> JNull" and "JNull \<notin> set rest" by auto
  from reduce_voice_ok [OF this(1)] obtain o1 where o1: "reduce_voice voice = Inr o1"
    "only_voice_fields (JObj (stringify_object o1))"
    "\<forall>k\<in>set voice_keys. get_prop (JObj (stringify_object o1)) k = get_prop voice k" by blast
  from Cons.IH [OF \<open>JNull \<notin> set rest\<close>] obtain os where os: "map_voices rest = Inr os"
    "length os = length rest"
    "\<forall>i<length rest. only_voice_fields (JObj (stringify_object (os ! i)))
          \<and> (\<forall>k\<in>set voice_keys. get_prop (JObj (stringify_object (os ! i))) k = get_prop (rest ! i) k)"
    by blast
  have "\<forall>i<length (voice # rest). only_voice_fields (JObj (stringify_object ((o1 # os) ! i)))
          \<and> (\<forall>k\<in>set voice_keys. get_prop (JObj (stringify_object ((o1 # os) ! i))) k = get_prop ((voice # rest) ! i) k)"
  proof (intro allI impI)
    fix i assume "i < length (voice # rest)"
    then show "only_voice_fields (JObj (stringify_object ((o1 # os) ! i)))
          \<and> (\<forall>k\<in>set voice_keys. get_prop (JObj (stringify_object ((o1 # os) ! i))) k = get_prop ((voice # rest) ! i) k)"
      using o1(2,3) os(3) by (cases i) (simp_all del: get_prop.simps only_voice_fields.simps)
  qed
  with o1(1) os(1,2) show ?case by (simp del: get_prop.simps only_voice_fields.simps)
qed

lemma fetchElevenLabsVoices_sends:
  assumes "k \<noteq> []"
  shows "fetchElevenLabsVoices fetch k =
     (case fetch (voices_request k) of
           Rejects \<Rightarrow> Inl TypeError
         | Resolves response \<Rightarrow>
             if \<not> up_ok response then
               (case up_text response of
                  None \<Rightarrow> Inl TypeError
                | Some errorBody \<Rightarrow>
                    Inl (ElevenLabsError (lit ''Failed to fetch voices: '' @ up_statusText response)
                           (Some (up_status response)) (Some errorBody)))
             else
               (case up_json response of
                  None \<Rightarrow> Inl SyntaxError
                | Some data \<Rightarrow>
                    (case get_prop data (lit ''voices'') of
                       Inl e \<Rightarrow> Inl e
                     | Inr (Some (JArr vs)) \<Rightarrow> map_voices vs
                     | Inr other \<Rightarrow> Inl TypeError)),
         [voices_request k])"
  using assms by (simp add: fetchElevenLabsVoices_def)

lemma GET_success:
  assumes "\<not> not_configured apiKey"
    and "fetch (voices_request (api_key apiKey)) = Resolves r" and "up_ok r"
    and "up_json r = Some data" and "get_prop data (lit ''voices'') = Inr (Some (JArr vs))"
    and "JNull \<notin> set vs"
  shows "\<exists>out. outcome (GET fetch apiKey) =
            Inr (json_response (JObj [(lit ''success'', JBool True), (lit ''voices'', JArr out)]) 200)
          \<and> length out = length vs
          \<and> (\<forall>i<length vs. only_voice_fields (out ! i)
                \<and> (\<forall>k\<in>set voice_keys. get_prop (out ! i) k = get_prop (vs ! i) k))"
proof -
  from map_voices_ok [OF assms(6)] obtain os where os: "map_voices vs = Inr os" "length os = length vs"
    "\<forall>i<length vs. only_voice_fields (JObj (stringify_object (os ! i)))
          \<and> (\<forall>k\<in>set voice_keys. get_prop (JObj (stringify_object (os ! i))) k = get_prop (vs ! i) k)"
    by blast
  have "fetchElevenLabsVoices fetch (api_key apiKey) = (Inr os, [voices_request (api_key apiKey)])"
    using assms(2,3,4,5) os(1) by (simp add: fetchElevenLabsVoices_sends [OF configured_key [OF assms(1)]])
  then have "outcome (GET fetch apiKey) =
      Inr (json_response (JObj [(lit ''success'', JBool True),
             (lit ''voices'', JArr (map (\<lambda>v. JObj (stringify_object v)) os))]) 200)"
    using assms(1) by (simp add: GET_def NextResponse_json_def)
  moreover have "length (map (\<lambda>v. JObj (stringify_object v)) os) = length vs" using os(2) by simp
  moreover have "\<forall>i<length vs. only_voice_fields (map (\<lambda>v. JObj (stringify_object v)) os ! i)
                \<and> (\<forall>k\<in>set voice_keys. get_prop (map (\<lambda>v. JObj (stringify_object v)) os ! i) k = get_prop (vs ! i) k)"
    using os(2,3) by (simp del: get_prop.simps only_voice_fields.simps)
  ultimately show ?thesis by blast
qed

lemma GET_provider_error:
  assumes "\<not> not_configured apiKey"
    and "fetch (voices_request (api_key apiKey)) = Resolves r" and "\<not> up_ok r"
    and "up_text r = Some errorBody"
  shows "outcome (GET fetch apiKey) =
     (if up_status r = 401 then NextResponse_json (error_envelope ''Invalid API key configuration'') 401
      else if up_status r = 429 then
        NextResponse_json (error_envelope ''Rate limit exceeded, please try again later'') 429
      else if up_status r \<ge> 500 \<or> up_status r = 0 then
        NextResponse_json (error_envelope ''Failed to fetch voices'') 500
      else NextResponse_json (error_envelope ''Failed to fetch voices'') (up_status r))"
proof -
  have "fetchElevenLabsVoices fetch (api_key apiKey) =
      (Inl (ElevenLabsError (lit ''Failed to fetch voices: '' @ up_statusText r)
              (Some (up_status r)) (Some errorBody)), [voices_request (api_key apiKey)])"
    using assms(2,3,4) by (simp add: fetchElevenLabsVoices_sends [OF configured_key [OF assms(1)]])
  then show ?thesis using assms(1) by (simp add: GET_def Let_def)
qed

lemma get_prop_throws: "get_prop v k = Inl e \<Longrightarrow> e = TypeError"
  by (cases v) simp_all

lemma reduce_voice_null: "reduce_voice JNull = Inl TypeError"
  by (simp add: reduce_voice_def)

lemma reduce_voice_throws: "reduce_voice v = Inl e \<Longrightarrow> e = TypeError"
  by (auto simp add: reduce_voice_def split: sum.splits dest: get_prop_throws)

lemma map_voices_null: "JNull \<in> set vs \<Longrightarrow> map_voices vs = Inl TypeError"
proof (induction vs)
  case Nil
  then show ?case by simp
next
  case (Cons voice rest)
  show ?case
  proof (cases "voice = JNull")
    case True
    then show ?thesis by (simp add: reduce_voice_null)
  next
    case False
    with Cons have "map_voices rest = Inl TypeError" by simp
    then show ?thesis
      by (auto simp add: split: sum.splits dest: reduce_voice_throws)
  qed
qed

text \<open>
  The replies that are not a classified provider error and not a catalogue: the request
  is rejected; the status is a failure and the body cannot be read; the status is a
  success and the body is not JSON, or its \<open>voices\<close> is not an array, or the array holds
  \<open>null\<close>.
\<close>

lemma GET_unclassified:
  assumes "\<not> not_configured apiKey"
    and "fetch (voices_request (api_key apiKey)) = Rejects
       \<or> (\<exists>r. fetch (voices_request (api_key apiKey)) = Resolves r
              \<and> (if up_ok r then
                    (case up_json r of
                       None \<Rightarrow> True
                     | Some data \<Rightarrow>
                         (\<forall>vs. get_prop data (lit ''voices'') = Inr (Some (JArr vs)) \<longrightarrow> JNull \<in> set vs))
                  else up_text r = None))"
  shows "outcome (GET fetch apiKey) = Inr unexpected_error"
proof -
  have "fst (fetchElevenLabsVoices fetch (api_key apiKey)) = Inl TypeError
      \<or> fst (fetchElevenLabsVoices fetch (api_key apiKey)) = Inl SyntaxError"
    using assms(2)
  proof
    assume "fetch (voices_request (api_key apiKey)) = Rejects"
    then show ?thesis
      by (simp add: fetchElevenLabsVoices_sends [OF configured_key [OF assms(1)]])
  next
    assume "\<exists>r. fetch (voices_request (api_key apiKey)) = Resolves r
              \<and> (if up_ok r then
                    (case up_json r of
                       None \<Rightarrow> True
                     | Some data \<Rightarrow>
                         (\<forall>vs. get_prop data (lit ''voices'') = Inr (Some (JArr vs)) \<longrightarrow> JNull \<in> set vs))
                  else up_text r = None)"
    then obtain r where r: "fetch (voices_request (api_key apiKey)) = Resolves r"
      and c: "if up_ok r then
                    (case up_json r of
                       None \<Rightarrow> True
                     | Some data \<Rightarrow>
                         (\<forall>vs. get_prop data (lit ''voices'') = Inr (Some (JArr vs)) \<longrightarrow> JNull \<in> set vs))
                  else up_text r = None"
      by blast
    show ?thesis
    proof (cases "up_ok r")
      case False
      with r c show ?thesis
        by (simp add: fetchElevenLabsVoices_sends [OF configured_key [OF assms(1)]])
    next
      case True
      show ?thesis
      proof (cases "up_json r")
        case None
        with r True show ?thesis
          by (simp add: fetchElevenLabsVoices_sends [OF configured_key [OF assms(1)]])
      next
        case (Some data)
        with c True have n: "\<forall>vs. get_prop data (lit ''voices'') = Inr (Some (JArr vs)) \<longrightarrow> JNull \<in> set vs"
          by simp
        have "(case get_prop data (lit ''voices'') of
                 Inl e \<Rightarrow> Inl e
               | Inr (Some (JArr vs)) \<Rightarrow> map_voices vs
               | Inr other \<Rightarrow> Inl TypeError) = Inl TypeError"
          using n
          by (auto split: sum.splits option.splits json.splits
              dest: get_prop_throws simp add: map_voices_null)
        with r True Some show ?thesis
          by (simp add: fetchElevenLabsVoices_sends [OF configured_key [OF assms(1)]])
      qed
    qed
  qed
  then show ?thesis using assms(1)
    by (cases "fetchElevenLabsVoices fetch (api_key apiKey)")
       (auto simp add: GET_def unexpected_error_def NextResponse_json_def)
qed

section \<open>Properties of the page component\<close>

lemma live_created:
  assumes "\<forall>u\<in>set (revoked b). u < created b"
  shows "live_urls (b\<lparr>created := Suc (created b)\<rparr>) = live_urls b @ [created b]"
proof -
  have "created b \<notin> set (revoked b)" using assms by auto
  then show ?thesis by (simp add: live_urls_def)
qed

lemma live_revoked: "live_urls (revokeObjectURL u b) = filter (\<lambda>x. x \<noteq> u) (live_urls b)"
  by (auto simp add: live_urls_def revokeObjectURL_def intro: filter_cong)

lemma live_member: "u \<in> set (live_urls b) \<longleftrightarrow> u < created b \<and> u \<notin> set (revoked b)"
  by (auto simp add: live_urls_def)

lemma consistent_initial: "consistent initial"
  by (simp add: consistent_def initial_def live_urls_def held_def)

lemma set_state_other:
  assumes "consistent w" and "\<And>s. audioUrl (f s) = audioUrl s"
  shows "consistent (commit (set_state f w))"
  using assms by (auto simp add: consistent_def commit_def set_state_def held_def)


lemma consistent_start:
  assumes "consistent w" and "mounted w"
  shows "consistent (commit (handleGenerate_start w))"
proof (cases "guard (state w)")
  case True
  with assms show ?thesis by (simp add: handleGenerate_start_def commit_def consistent_def)
next
  case False
  show ?thesis
  proof (cases "audioUrl (state w)")
    case None
    with assms False show ?thesis
      by (simp add: handleGenerate_start_def commit_def consistent_def set_state_def held_def Let_def)
  next
    case (Some u)
    with assms have l: "live_urls (browser w) = [u]" and c: "cleanup_url w = Some u"
      by (simp_all add: consistent_def held_def)
    from l have m: "u < created (browser w)" "u \<notin> set (revoked (browser w))"
      using live_member [of u "browser w"] by simp_all
    have "live_urls (revokeObjectURL u (browser w)) = []"
      by (simp add: live_revoked l)
    moreover have "distinct (revoked (revokeObjectURL u (browser w)))"
      using assms(1) m by (simp add: revokeObjectURL_def consistent_def)
    moreover have "\<forall>x\<in>set (revoked (revokeObjectURL u (browser w))). x < created (revokeObjectURL u (browser w))"
      using assms(1) m by (simp add: revokeObjectURL_def consistent_def)
    ultimately show ?thesis
      using assms(2) False Some c
      by (simp add: handleGenerate_start_def commit_def consistent_def set_state_def held_def
          Let_def run_cleanup_def)
  qed
qed

lemma same_frame_refl: "same_frame w w"
  by (simp add: same_frame_def)

lemma same_frame_set_state:
  assumes "\<And>s. audioUrl (f s) = audioUrl s" and "same_frame w' w"
  shows "same_frame (set_state f w') w"
  using assms by (simp add: same_frame_def set_state_def)

lemma same_frame_voices_pending: "same_frame w' w \<Longrightarrow> same_frame (w'\<lparr>voices_pending := x\<rparr>) w"
  by (simp add: same_frame_def)

lemma loadVoices_frame: "same_frame (loadVoices_resume result w) w"
  unfolding loadVoices_resume_def Let_def
  by (intro same_frame_set_state same_frame_voices_pending)
     (auto intro!: same_frame_set_state same_frame_refl split: option.splits sum.splits)

lemma consistent_frame:
  assumes "consistent w" and "same_frame w' w"
  shows "consistent (commit w')"
  using assms by (auto simp add: consistent_def commit_def same_frame_def held_def)

lemma consistent_loadVoices: "consistent w \<Longrightarrow> consistent (commit (loadVoices_resume result w))"
  by (rule consistent_frame [OF _ loadVoices_frame])

lemma resume_no_url:
  assumes "\<not> (\<exists>r blob. settled = FetchResolves r \<and> cr_ok r
       \<and> (case cr_contentType r of None \<Rightarrow> False | Some ct \<Rightarrow> includes_str ct (lit ''audio/mpeg''))
       \<and> cr_blob r = Some blob)"
  shows "browser (handleGenerate_resume settled w) = browser w
     \<and> audioUrl (state (handleGenerate_resume settled w)) = audioUrl (state w)"
  using assms
  by (auto simp add: handleGenerate_resume_def Let_def set_state_def
      split: client_fetch.splits option.splits sum.splits)

lemma resume_url:
  assumes "settled = FetchResolves r" and "cr_ok r"
    and "(case cr_contentType r of None \<Rightarrow> False | Some ct \<Rightarrow> includes_str ct (lit ''audio/mpeg''))"
    and "cr_blob r = Some blob"
  shows "browser (handleGenerate_resume settled w) = (browser w)\<lparr>created := Suc (created (browser w))\<rparr>
     \<and> audioUrl (state (handleGenerate_resume settled w)) =
          (if mounted w then Some (created (browser w)) else audioUrl (state w))"
  using assms
  by (auto simp add: handleGenerate_resume_def Let_def set_state_def createObjectURL_def
      split: option.splits)

lemma resume_frame:
  "mounted (handleGenerate_resume settled w) = mounted w
   \<and> cleanup_url (handleGenerate_resume settled w) = cleanup_url w
   \<and> pending (handleGenerate_resume settled w) = None"
  by (auto simp add: handleGenerate_resume_def Let_def set_state_def createObjectURL_def
      split: client_fetch.splits option.splits sum.splits prod.splits)

lemma consistent_resume:
  assumes "consistent w" and "pending w \<noteq> None"
  shows "consistent (commit (handleGenerate_resume settled w))"
proof (cases "\<exists>r blob. settled = FetchResolves r \<and> cr_ok r
       \<and> (case cr_contentType r of None \<Rightarrow> False | Some ct \<Rightarrow> includes_str ct (lit ''audio/mpeg''))
       \<and> cr_blob r = Some blob")
  case False
  from resume_no_url [OF False, of w] resume_frame [of settled w] assms
  show ?thesis by (auto simp add: consistent_def commit_def held_def)
next
  case True
  then obtain r blob where s: "settled = FetchResolves r" "cr_ok r"
    "(case cr_contentType r of None \<Rightarrow> False | Some ct \<Rightarrow> includes_str ct (lit ''audio/mpeg''))"
    "cr_blob r = Some blob" by blast
  let ?w = "handleGenerate_resume settled w"
  note u = resume_url [OF s, of w]
  note f = resume_frame [of settled w]
  have rv: "\<forall>u\<in>set (revoked (browser w)). u < created (browser w)"
    using assms(1) by (simp add: consistent_def)
  have live: "live_urls (browser w) = []"
    using assms by (auto simp add: consistent_def held_def split: if_splits)
  have l: "live_urls (browser ?w) = [created (browser w)]"
    using u live_created [OF rv] live by simp
  show ?thesis
  proof (cases "mounted w")
    case True
    with assms have "cleanup_url w = None" "audioUrl (state w) = None"
      by (auto simp add: consistent_def)
    with True u f l assms(1) show ?thesis
      by (auto simp add: consistent_def commit_def held_def run_cleanup_def less_Suc_eq)
  next
    case False
    with u f l assms(1) show ?thesis
      by (auto simp add: consistent_def commit_def less_Suc_eq)
  qed
qed

lemma consistent_unmount:
  assumes "consistent w"
  shows "consistent (unmount w)"
proof (cases "mounted w")
  case False
  with assms show ?thesis by (simp add: unmount_def)
next
  case True
  show ?thesis
  proof (cases "cleanup_url w")
    case None
    with True assms show ?thesis
      by (auto simp add: unmount_def run_cleanup_def consistent_def held_def)
  next
    case (Some u)
    have uw: "unmount w = w\<lparr>browser := revokeObjectURL u (browser w), mounted := False\<rparr>"
      using True Some by (simp add: unmount_def run_cleanup_def)
    from True assms have d: "distinct (revoked (browser w))"
      and rv: "\<forall>x\<in>set (revoked (browser w)). x < created (browser w)"
      and c: "cleanup_url w = audioUrl (state w)" and lh: "live_urls (browser w) = held w"
      by (simp_all add: consistent_def)
    from c Some have "audioUrl (state w) = Some u" by simp
    with lh have l: "live_urls (browser w) = [u]" by (simp add: held_def)
    from l have m: "u < created (browser w)" "u \<notin> set (revoked (browser w))"
      using live_member [of u "browser w"] by simp_all
    have e: "live_urls (revokeObjectURL u (browser w)) = []"
      by (simp add: live_revoked l)
    have "distinct (revoked (revokeObjectURL u (browser w)))"
      and "\<forall>x\<in>set (revoked (revokeObjectURL u (browser w))). x < created (revokeObjectURL u (browser w))"
      using d rv m by (simp_all add: revokeObjectURL_def)
    with e show ?thesis unfolding uw by (simp add: consistent_def)
  qed
qed

lemma consistent_step:
  assumes "consistent w"
  shows "consistent (step maxLength w ev)"
proof (cases ev)
  case (VoicesSettle result)
  with assms show ?thesis by (simp add: consistent_loadVoices)
next
  case (Input newValue)
  with assms show ?thesis by (simp add: set_state_other)
next
  case (Select voiceId)
  with assms show ?thesis by (simp add: set_state_other)
next
  case Click
  with assms show ?thesis by (simp add: consistent_start)
next
  case (Settle settled)
  with assms show ?thesis by (cases "pending w") (simp_all add: consistent_resume)
next
  case PlaybackError
  with assms show ?thesis by (simp add: set_state_other)
next
  case Teardown
  with assms show ?thesis by (simp add: consistent_unmount)
qed

lemma consistent_run: "consistent w \<Longrightarrow> consistent (run maxLength evs w)"
  unfolding run_def by (induction evs arbitrary: w) (simp_all add: consistent_step)

lemma consistent_live: "consistent w \<Longrightarrow> length (live_urls (browser w)) \<le> 1"
  by (auto simp add: consistent_def held_def split: if_splits option.splits)

lemma includes_audio: "includes_str (lit ''audio/mpeg'') (lit ''audio/mpeg'')"
  by (simp add: lit_def)

lemma one_generation:
  assumes "ready w"
  shows "ready (run maxLength [Click, Settle (audio_reply bytes)] w)
    \<and> created (browser (run maxLength [Click, Settle (audio_reply bytes)] w)) = Suc (created (browser w))
    \<and> audioUrl (state (run maxLength [Click, Settle (audio_reply bytes)] w)) = Some (created (browser w))
    \<and> revoked (browser (run maxLength [Click, Settle (audio_reply bytes)] w)) =
         revoked (browser w) @ held w"
proof -
  from assms have g: "\<not> guard (state w)" and m: "mounted w" and c: "cleanup_url w = audioUrl (state w)"
    and e: "\<not> isGenerateDisabled (state w)" "\<not> isGenerating (state w)"
    by (simp_all add: ready_def isGenerateDisabled_def)
  let ?rq = "\<lparr>gr_text = storyText (state w),
             gr_voice_id = (case selectedVoiceId (state w) of Some v \<Rightarrow> v | None \<Rightarrow> [])\<rparr>"
  let ?s1 = "(state w)\<lparr>isGenerating := True, error := None, audioUrl := None\<rparr>"
  let ?b1 = "(case audioUrl (state w) of None \<Rightarrow> browser w | Some u \<Rightarrow> revokeObjectURL u (browser w))"
  define w1 where "w1 = step maxLength w Click"
  define w2 where "w2 = step maxLength w1 (Settle (audio_reply bytes))"
  have w1: "w1 =
      w\<lparr>state := ?s1, requests := requests w @ [?rq], pending := Some ?rq,
        browser := ?b1, cleanup_url := None\<rparr>"
    unfolding w1_def using g m c e
    by (cases "audioUrl (state w)")
       (simp_all add: handleGenerate_start_def set_state_def Let_def commit_def run_cleanup_def)
  have w2: "w2 =
      w1\<lparr>state := ?s1\<lparr>audioUrl := Some (created ?b1), isGenerating := False\<rparr>,
           pending := None, browser := ?b1\<lparr>created := Suc (created ?b1)\<rparr>,
           cleanup_url := Some (created ?b1)\<rparr>"
    unfolding w2_def w1 using m
    by (simp add: handleGenerate_resume_def audio_reply_def cr_ok_def includes_audio Let_def
        set_state_def createObjectURL_def commit_def run_cleanup_def)
  have cb: "created ?b1 = created (browser w)"
    by (simp add: revokeObjectURL_def split: option.splits)
  have rb: "revoked ?b1 = revoked (browser w) @ held w"
    by (simp add: revokeObjectURL_def held_def split: option.splits)
  have r: "run maxLength [Click, Settle (audio_reply bytes)] w = w2"
    by (simp add: run_def w2_def w1_def del: step.simps)
  have "ready w2" and "created (browser w2) = Suc (created (browser w))"
    and "audioUrl (state w2) = Some (created (browser w))"
    and "revoked (browser w2) = revoked (browser w) @ held w"
    using m g e cb rb by (simp_all add: w2 w1 ready_def isGenerateDisabled_def guard_def)
  then show ?thesis unfolding r by simp
qed

lemma generations_Cons:
  "run maxLength (generations (bytes # rest)) w =
     run maxLength (generations rest) (run maxLength [Click, Settle (audio_reply bytes)] w)"
  by (simp add: run_def generations_def)

lemma many_generations:
  assumes "ready w"
  shows "ready (run maxLength (generations payloads) w)
    \<and> created (browser (run maxLength (generations payloads) w)) = created (browser w) + length payloads
    \<and> (payloads \<noteq> [] \<longrightarrow>
         audioUrl (state (run maxLength (generations payloads) w)) =
           Some (created (browser w) + length payloads - 1)
       \<and> revoked (browser (run maxLength (generations payloads) w)) =
           revoked (browser w) @ held w
             @ [created (browser w) ..< created (browser w) + length payloads - 1])"
  using assms
proof (induction payloads arbitrary: w)
  case Nil
  then show ?case by (simp add: run_def generations_def)
next
  case (Cons bytes rest)
  let ?w1 = "run maxLength [Click, Settle (audio_reply bytes)] w"
  note o = one_generation [OF Cons.prems, of maxLength bytes]
  then have r1: "ready ?w1" by simp
  note ih = Cons.IH [OF r1]
  have h1: "held ?w1 = [created (browser w)]" using o by (simp add: held_def)
  show ?case
  proof (cases "rest = []")
    case True
    with o show ?thesis by (simp add: generations_Cons) (simp add: run_def generations_def)
  next
    case False
    then have "0 < length rest" by simp
    then have "[created (browser w) ..< created (browser w) + length rest] =
        created (browser w) # [Suc (created (browser w)) ..< created (browser w) + length rest]"
      by (simp add: upt_conv_Cons)
    with ih o h1 False show ?thesis
      by (simp add: generations_Cons)
  qed
qed

lemma run_append: "run maxLength (evs @ evs') w = run maxLength evs' (run maxLength evs w)"
  by (simp add: run_def)

lemma resume_clears:
  "mounted w \<Longrightarrow> \<not> isGenerating (state (handleGenerate_resume settled w))"
  by (auto simp add: handleGenerate_resume_def Let_def set_state_def createObjectURL_def
      split: client_fetch.splits option.splits sum.splits prod.splits)

lemma start_sets:
  assumes "mounted w" and "\<not> guard (state w)"
  shows "isGenerating (state (handleGenerate_start w))" and "mounted (handleGenerate_start w)"
    and "pending (handleGenerate_start w) \<noteq> None"
    and "length (requests (handleGenerate_start w)) = Suc (length (requests w))"
  using assms by (simp_all add: handleGenerate_start_def Let_def set_state_def)

lemma commit_mounted: "mounted (commit w) = mounted w"
  by (simp add: commit_def run_cleanup_def split: option.splits)

lemma reachable_consistent: "consistent (run maxLength evs initial)"
  by (rule consistent_run [OF consistent_initial])

lemma fresh_ready:
  assumes "consistent w" and "ready w" and "created (browser w) = 0"
  shows "revoked (browser w) = []" and "held w = []"
proof -
  from assms(1,3) show r: "revoked (browser w) = []" by (auto simp add: consistent_def)
  from assms(3) have "live_urls (browser w) = []" by (simp add: live_urls_def)
  with assms(1,2) show "held w = []" by (simp add: consistent_def ready_def)
qed

lemma teardown_ready:
  assumes "ready w" and "audioUrl (state w) = Some u" and "live_urls (browser w) = [u]"
  shows "revoked (browser (step maxLength w Teardown)) = revoked (browser w) @ [u]"
    and "live_urls (browser (step maxLength w Teardown)) = []"
proof -
  from assms(1,2) have "step maxLength w Teardown =
      w\<lparr>browser := revokeObjectURL u (browser w), mounted := False\<rparr>"
    by (simp add: ready_def unmount_def run_cleanup_def)
  then show "revoked (browser (step maxLength w Teardown)) = revoked (browser w) @ [u]"
    and "live_urls (browser (step maxLength w Teardown)) = []"
    using assms(3) by (simp_all add: live_revoked) (simp add: revokeObjectURL_def)
qed

lemma commit_frame:
  assumes "consistent w" and "same_frame w' w"
  shows "browser (commit w') = browser w" and "audioUrl (state (commit w')) = audioUrl (state w)"
  using assms by (auto simp add: consistent_def commit_def same_frame_def split: if_splits)

lemma set_state_frame:
  assumes "\<And>s. audioUrl (f s) = audioUrl s"
  shows "same_frame (set_state f w) w"
  by (rule same_frame_set_state [OF assms same_frame_refl])

lemma start_released:
  assumes "consistent w" and "mounted w"
  shows "revoked (browser (commit (handleGenerate_start w))) =
      revoked (browser w) @
        (if audioUrl (state (commit (handleGenerate_start w))) \<noteq> audioUrl (state w) then held w else [])"
proof (cases "guard (state w)")
  case True
  with assms show ?thesis by (simp add: handleGenerate_start_def commit_def consistent_def)
next
  case False
  from assms have c: "cleanup_url w = audioUrl (state w)" by (simp add: consistent_def)
  show ?thesis
  proof (cases "audioUrl (state w)")
    case None
    with assms False c show ?thesis
      by (simp add: handleGenerate_start_def commit_def set_state_def Let_def)
  next
    case (Some u)
    with assms False c show ?thesis
      by (simp add: handleGenerate_start_def commit_def set_state_def Let_def run_cleanup_def
          revokeObjectURL_def held_def)
  qed
qed

lemma resume_released:
  assumes "consistent w" and "pending w \<noteq> None"
  shows "revoked (browser (commit (handleGenerate_resume settled w))) = revoked (browser w)"
    and "mounted w \<Longrightarrow> held w = []"
proof -
  show h: "held w = []" if "mounted w"
    using assms that by (auto simp add: consistent_def held_def)
  have r: "revoked (browser (handleGenerate_resume settled w)) = revoked (browser w)"
    using resume_no_url [of settled w] resume_url [of settled _ _ w]
    by (cases "\<exists>r blob. settled = FetchResolves r \<and> cr_ok r
       \<and> (case cr_contentType r of None \<Rightarrow> False | Some ct \<Rightarrow> includes_str ct (lit ''audio/mpeg''))
       \<and> cr_blob r = Some blob") auto
  show "revoked (browser (commit (handleGenerate_resume settled w))) = revoked (browser w)"
  proof (cases "mounted w")
    case False
    with resume_frame [of settled w] r show ?thesis by (simp add: commit_def)
  next
    case True
    with assms have "cleanup_url w = None" by (auto simp add: consistent_def)
    with resume_frame [of settled w] r show ?thesis
      by (simp add: commit_def run_cleanup_def)
  qed
qed

lemma teardown_released:
  assumes "consistent w" and "mounted w"
  shows "revoked (browser (step maxLength w Teardown)) = revoked (browser w) @ held w"
    and "live_urls (browser (step maxLength w Teardown)) = []"
proof -
  from assms have c: "cleanup_url w = audioUrl (state w)" and l: "live_urls (browser w) = held w"
    by (simp_all add: consistent_def)
  show "revoked (browser (step maxLength w Teardown)) = revoked (browser w) @ held w"
    using assms(2) c
    by (cases "audioUrl (state w)")
       (simp_all add: unmount_def run_cleanup_def held_def revokeObjectURL_def)
  show "live_urls (browser (step maxLength w Teardown)) = []"
    using assms(2) c l
    by (cases "audioUrl (state w)")
       (simp_all add: unmount_def run_cleanup_def held_def live_revoked)
qed

lemma step_released:
  assumes "consistent w"
  shows "revoked (browser (step maxLength w ev)) =
      revoked (browser w) @
        (if mounted w \<and> (audioUrl (state (step maxLength w ev)) \<noteq> audioUrl (state w) \<or> ev = Teardown)
         then held w else [])"
proof (cases ev)
  case (VoicesSettle result)
  have "same_frame (loadVoices_resume result w) w" by (rule loadVoices_frame)
  from commit_frame [OF assms this] VoicesSettle show ?thesis by simp
next
  case (Input newValue)
  have "same_frame (set_state (\<lambda>s. s\<lparr>storyText := newValue\<rparr>) w) w"
    by (rule set_state_frame) simp
  from commit_frame [OF assms this] Input show ?thesis by simp
next
  case (Select voiceId)
  have "same_frame (set_state (\<lambda>s. s\<lparr>selectedVoiceId := Some voiceId\<rparr>) w) w"
    by (rule set_state_frame) simp
  from commit_frame [OF assms this] Select show ?thesis by simp
next
  case Click
  with start_released [OF assms] show ?thesis by simp
next
  case (Settle settled)
  show ?thesis
  proof (cases "pending w")
    case None
    with Settle show ?thesis by simp
  next
    case (Some rq)
    then have p: "pending w \<noteq> None" by simp
    from resume_released(1) [OF assms p, of settled] resume_released(2) [OF assms p] Settle Some
    show ?thesis by simp
  qed
next
  case PlaybackError
  have "same_frame (set_state (\<lambda>s. s\<lparr>error := Some (JStr (lit ''Failed to play audio''))\<rparr>) w) w"
    by (rule set_state_frame) simp
  from commit_frame [OF assms this] PlaybackError show ?thesis by simp
next
  case Teardown
  show ?thesis
  proof (cases "mounted w")
    case True
    with Teardown teardown_released(1) [OF assms True, of maxLength] show ?thesis by simp
  next
    case False
    with Teardown show ?thesis by (simp add: unmount_def)
  qed
qed

section \<open>The generate endpoint\<close>

lemmas sample_defs = sample_config_def sample_key_def sample_body_def reply_def
  validation_failure_def not_configured_def lit_def isWhiteSpace_def trim_def

text \<open>
  Claim C9. When the credential is absent or is the placeholder, every POST request gets
  status 500 with \<open>{success: false, error: "Server configuration error: API key not set"}\<close>,
  whatever the body is (malformed, empty text, over-length): the configuration check comes
  before parsing and validation, and nothing is sent to the provider.
\<close>

theorem configuration_error_first:
  assumes "apiKey = None \<or> apiKey = Some (lit ''your_key_here'')"
  shows "POST cfg fetch apiKey request =
    \<lparr>outcome = Inr \<lparr>res_status = 500,
                     res_headers = [(''content-type'', ''application/json'')],
                     res_body = Json (JObj [(lit ''success'', JBool False),
                        (lit ''error'', JStr (lit ''Server configuration error: API key not set''))])\<rparr>,
     synthesize_calls = [], upstream_calls = []\<rparr>"
  using assms
  by (auto simp add: POST_def not_configured_def returns_def NextResponse_json_def json_response_def error_envelope_def)

theorem configuration_error_first_witness:
  "POST sample_config (\<lambda>rq. Resolves (reply 200)) None Malformed =
    \<lparr>outcome = Inr \<lparr>res_status = 500,
                     res_headers = [(''content-type'', ''application/json'')],
                     res_body = Json (JObj [(lit ''success'', JBool False),
                        (lit ''error'', JStr (lit ''Server configuration error: API key not set''))])\<rparr>,
     synthesize_calls = [], upstream_calls = []\<rparr>
   \<and> POST sample_config (\<lambda>rq. Resolves (reply 200)) (Some (lit ''your_key_here''))
         (Parsed (sample_body [])) =
    \<lparr>outcome = Inr \<lparr>res_status = 500,
                     res_headers = [(''content-type'', ''application/json'')],
                     res_body = Json (JObj [(lit ''success'', JBool False),
                        (lit ''error'', JStr (lit ''Server configuration error: API key not set''))])\<rparr>,
     synthesize_calls = [], upstream_calls = []\<rparr>"
  using configuration_error_first [of None sample_config "\<lambda>rq. Resolves (reply 200)" Malformed]
    configuration_error_first [of "Some (lit ''your_key_here'')" sample_config
      "\<lambda>rq. Resolves (reply 200)" "Parsed (sample_body [])"]
  by simp

text \<open>
  Claim C1, as the code has it. With a configured credential and a body that is malformed
  or parses to a value other than \<open>null\<close>, the first failing check of the specified order
  decides the response: status 400 with that check's message, and neither the provider
  client nor the upstream service is called. The checks are: malformed JSON; \<open>text\<close>
  missing, not a string or the empty string (\<open>Text is required and must be a string\<close>);
  \<open>text\<close> non-empty but all white space (\<open>Text cannot be empty\<close>); \<open>text\<close> longer than
  the limit (the message holds the limit as \<open>toLocaleString\<close> renders it); \<open>voice_id\<close>
  missing, not a string or empty.
\<close>

theorem validation_fails_fast:
  assumes "\<not> not_configured apiKey"
    and "request \<noteq> Parsed JNull"
    and "validation_failure cfg request = Some message"
  shows "outcome (POST cfg fetch apiKey request) = Inr (json_response (error_envelope message) 400)
    \<and> synthesize_calls (POST cfg fetch apiKey request) = []
    \<and> upstream_calls (POST cfg fetch apiKey request) = []"
proof (cases request)
  case Malformed
  with assms(1,3) show ?thesis
    by (simp add: POST_def validation_failure_def returns_def NextResponse_json_def)
next
  case (Parsed b)
  with assms(2) have "b \<noteq> JNull" by simp
  from POST_configured [OF assms(1) this, of cfg fetch] assms(3) Parsed
  show ?thesis by (simp add: returns_def)
qed

theorem validation_fails_fast_witness:
  "\<not> not_configured sample_key
   \<and> Parsed (sample_body (lit ''  '')) \<noteq> Parsed JNull
   \<and> validation_failure sample_config (Parsed (sample_body (lit ''  ''))) = Some ''Text cannot be empty''
   \<and> outcome (POST sample_config (\<lambda>rq. Resolves (reply 200)) sample_key
                (Parsed (sample_body (lit ''  ''))))
       = Inr (json_response (error_envelope ''Text cannot be empty'') 400)
   \<and> synthesize_calls (POST sample_config (\<lambda>rq. Resolves (reply 200)) sample_key
                (Parsed (sample_body (lit ''  '')))) = []
   \<and> upstream_calls (POST sample_config (\<lambda>rq. Resolves (reply 200)) sample_key
                (Parsed (sample_body (lit ''  '')))) = []"
  using validation_fails_fast [of sample_key "Parsed (sample_body (lit ''  ''))" sample_config
      "''Text cannot be empty''" "\<lambda>rq. Resolves (reply 200)"]
  by (simp add: sample_defs)

text \<open>
  The claim as stated fails for the empty string: \<open>text = ""\<close> is a string whose trimmed
  form is empty, and the response is 400 with \<open>Text is required and must be a string\<close>, not
  with \<open>Text cannot be empty\<close>.
\<close>

theorem empty_text_message_counterexample:
  "\<not> not_configured sample_key
   \<and> string_field (sample_body []) ''text'' = Some []
   \<and> trim [] = []
   \<and> outcome (POST sample_config (\<lambda>rq. Resolves (reply 200)) sample_key (Parsed (sample_body [])))
       = Inr (json_response (error_envelope ''Text is required and must be a string'') 400)
   \<and> outcome (POST sample_config (\<lambda>rq. Resolves (reply 200)) sample_key (Parsed (sample_body [])))
       \<noteq> Inr (json_response (error_envelope ''Text cannot be empty'') 400)"
  by (simp add: sample_defs POST_def returns_def NextResponse_json_def json_response_def error_envelope_def
      MIN_TEXT_LENGTH_def)

text \<open>
  A body that is the JSON value \<open>null\<close> parses, and the destructuring after the \<open>try\<close>
  block throws: the handler returns no response of its own.
\<close>

lemma null_body_escapes:
  "outcome (POST sample_config (\<lambda>rq. Resolves (reply 200)) sample_key (Parsed JNull)) = Inl TypeError"
  by (simp add: sample_defs POST_def throws_def)

text \<open>
  Claim C4. For a request that passes validation and a provider call that succeeds, the
  response has status 200, the provider's bytes as its body, \<open>Content-Type: audio/mpeg\<close>,
  a \<open>Content-Length\<close> that is the decimal text of the number of bytes,
  \<open>Cache-Control: private, max-age=3600\<close> and an inline \<open>Content-Disposition\<close> with a
  file name.
\<close>

theorem audio_response_exact:
  assumes "\<not> not_configured apiKey"
    and "validation_failure cfg (Parsed b) = None"
    and "string_field b ''text'' = Some t"
    and "string_field b ''voice_id'' = Some v"
    and "fetch (speech_request (api_key apiKey) (trim t) v) = Resolves r"
    and "up_ok r" and "up_arrayBuffer r = Some audio"
  shows "outcome (POST cfg fetch apiKey (Parsed b)) =
     Inr \<lparr>res_status = 200,
          res_headers = [(''Content-Type'', ''audio/mpeg''),
                         (''Content-Length'', toString (length audio)),
                         (''Cache-Control'', ''private, max-age=3600''),
                         (''Content-Disposition'', ''inline; filename=\"generated-audio.mp3\"'')],
          res_body = Bytes audio\<rparr>
     \<and> decimal_value (toString (length audio)) = length audio"
  by (simp add: POST_success [where fetch = fetch, OF assms] audio_response_def decimal_value_toString)

theorem audio_response_exact_witness:
  "outcome (POST sample_config (\<lambda>rq. Resolves (reply 200)) sample_key
              (Parsed (sample_body (lit '' hi '')))) =
     Inr \<lparr>res_status = 200,
          res_headers = [(''Content-Type'', ''audio/mpeg''),
                         (''Content-Length'', ''3''),
                         (''Cache-Control'', ''private, max-age=3600''),
                         (''Content-Disposition'', ''inline; filename=\"generated-audio.mp3\"'')],
          res_body = Bytes [0x49, 0x44, 0x33]\<rparr>"
  using audio_response_exact [of sample_key sample_config "sample_body (lit '' hi '')" "lit '' hi ''"
      "lit ''v1''" "\<lambda>rq. Resolves (reply 200)" "reply 200" "[0x49, 0x44, 0x33]"]
  by (simp add: sample_defs up_ok_def toString.simps digit_char_def)

text \<open>
  Claim C2, as the code has it. For a request that passes validation and a provider reply
  with a non-success status whose body can be read, the response is the error envelope
  with: 401 and \<open>Authentication failed with speech service\<close> for 401; 422 and
  \<open>Invalid request: please check your text and try again\<close> for 422; 429 and a rate-limit
  message for 429; 500 and \<open>Failed to generate speech\<close> for a status of 500 or more; and
  for any other status from 300 to 499 except 304 that same status with
  \<open>Failed to generate speech\<close>. With the success statuses excluded, these are all the
  statuses of 300 or more other than 304.
\<close>

theorem provider_error_remapped:
  assumes "\<not> not_configured apiKey"
    and "validation_failure cfg (Parsed b) = None"
    and "string_field b ''text'' = Some t"
    and "string_field b ''voice_id'' = Some v"
    and "fetch (speech_request (api_key apiKey) (trim t) v) = Resolves r"
    and "\<not> up_ok r" and "up_text r = Some errorBody"
  shows "(up_status r = 401 \<longrightarrow>
            outcome (POST cfg fetch apiKey (Parsed b)) =
              Inr (json_response (error_envelope ''Authentication failed with speech service'') 401))
    \<and> (up_status r = 422 \<longrightarrow>
            outcome (POST cfg fetch apiKey (Parsed b)) =
              Inr (json_response
                    (error_envelope ''Invalid request: please check your text and try again'') 422))
    \<and> (up_status r = 429 \<longrightarrow>
            outcome (POST cfg fetch apiKey (Parsed b)) =
              Inr (json_response
                    (error_envelope ''Speech service rate limit exceeded, please try again later'') 429))
    \<and> (up_status r \<ge> 500 \<longrightarrow>
            outcome (POST cfg fetch apiKey (Parsed b)) =
              Inr (json_response (error_envelope ''Failed to generate speech'') 500))
    \<and> (300 \<le> up_status r \<and> up_status r < 500 \<and> up_status r \<notin> {304, 401, 422, 429} \<longrightarrow>
            outcome (POST cfg fetch apiKey (Parsed b)) =
              Inr (json_response (error_envelope ''Failed to generate speech'') (up_status r)))"
proof -
  from POST_provider_error [where fetch = fetch, OF assms] obtain m where
    "outcome (POST cfg fetch apiKey (Parsed b)) =
       POST_catch (ElevenLabsError m (Some (up_status r)) (Some errorBody))"
    by auto
  then show ?thesis by (simp add: POST_catch_def Let_def NextResponse_json_def)
qed

theorem provider_error_remapped_witness:
  "outcome (POST sample_config (\<lambda>rq. Resolves (reply 401)) sample_key
              (Parsed (sample_body (lit '' hi '')))) =
     Inr (json_response (error_envelope ''Authentication failed with speech service'') 401)
   \<and> outcome (POST sample_config (\<lambda>rq. Resolves (reply 503)) sample_key
              (Parsed (sample_body (lit '' hi '')))) =
     Inr (json_response (error_envelope ''Failed to generate speech'') 500)"
  using provider_error_remapped [of sample_key sample_config "sample_body (lit '' hi '')"
      "lit '' hi ''" "lit ''v1''" "\<lambda>rq. Resolves (reply 401)" "reply 401" "lit ''{\"detail\":\"x\"}''"]
    provider_error_remapped [of sample_key sample_config "sample_body (lit '' hi '')"
      "lit '' hi ''" "lit ''v1''" "\<lambda>rq. Resolves (reply 503)" "reply 503" "lit ''{\"detail\":\"x\"}''"]
  by (simp add: sample_defs up_ok_def)

text \<open>
  The claim as stated fails for a provider status below 500 other than 401, 422 and 429:
  a provider 404 (an unknown voice) is answered with 404, not with 500.
\<close>

theorem provider_404_counterexample:
  "outcome (POST sample_config (\<lambda>rq. Resolves (reply 404)) sample_key
              (Parsed (sample_body (lit '' hi '')))) =
     Inr (json_response (error_envelope ''Failed to generate speech'') 404)
   \<and> json_response (error_envelope ''Failed to generate speech'') 404
       \<noteq> json_response (error_envelope ''Failed to generate speech'') 500"
  by (simp add: sample_defs POST_def generateSpeech_def POST_catch_def up_ok_def MIN_TEXT_LENGTH_def
      NextResponse_json_def json_response_def Let_def)

text \<open>
  At a provider status of 304 the \<open>catch\<close> block asks \<open>NextResponse.json\<close> for a response
  with status 304, which it refuses: the exception escapes the handler.
\<close>

lemma provider_304_escapes:
  "outcome (POST sample_config (\<lambda>rq. Resolves (reply 304)) sample_key
              (Parsed (sample_body (lit '' hi '')))) = Inl TypeError"
  by (simp add: sample_defs POST_def generateSpeech_def POST_catch_def up_ok_def MIN_TEXT_LENGTH_def
      NextResponse_json_def Let_def)

text \<open>
  Claim C8. Two calls with the same text and voice (in bodies that may differ otherwise),
  answered by provider replies that agree on the bytes (and may differ in status text,
  success status or anything else), return the same response: the same bytes and the same
  \<open>Content-Length\<close>.
\<close>

theorem generate_deterministic:
  assumes "\<not> not_configured apiKey"
    and "validation_failure cfg (Parsed b1) = None"
    and "validation_failure cfg (Parsed b2) = None"
    and "string_field b1 ''text'' = Some t" and "string_field b2 ''text'' = Some t"
    and "string_field b1 ''voice_id'' = Some v" and "string_field b2 ''voice_id'' = Some v"
    and "fetch1 (speech_request (api_key apiKey) (trim t) v) = Resolves r1"
    and "fetch2 (speech_request (api_key apiKey) (trim t) v) = Resolves r2"
    and "up_ok r1" and "up_ok r2"
    and "up_arrayBuffer r1 = Some audio" and "up_arrayBuffer r2 = Some audio"
  shows "outcome (POST cfg fetch1 apiKey (Parsed b1)) = outcome (POST cfg fetch2 apiKey (Parsed b2))
    \<and> (\<exists>res. outcome (POST cfg fetch2 apiKey (Parsed b2)) = Inr res
          \<and> res_body res = Bytes audio
          \<and> map_of (res_headers res) ''Content-Length'' = Some (toString (length audio)))"
  using POST_success [where fetch = fetch1, OF assms(1,2,4,6,8,10,12)]
    POST_success [where fetch = fetch2, OF assms(1,3,5,7,9,11,13)]
  by (simp add: audio_response_def)

theorem generate_deterministic_witness:
  "outcome (POST sample_config (\<lambda>rq. Resolves (reply 200)) sample_key
              (Parsed (sample_body (lit '' hi ''))))
   = outcome (POST sample_config (\<lambda>rq. Resolves ((reply 206)\<lparr>up_statusText := lit ''Partial''\<rparr>))
              sample_key
              (Parsed (JObj [(lit ''voice_id'', JStr (lit ''v1'')), (lit ''speed'', JNum 2),
                             (lit ''text'', JStr (lit '' hi ''))])))
   \<and> (\<exists>res. outcome (POST sample_config
                 (\<lambda>rq. Resolves ((reply 206)\<lparr>up_statusText := lit ''Partial''\<rparr>)) sample_key
                 (Parsed (JObj [(lit ''voice_id'', JStr (lit ''v1'')), (lit ''speed'', JNum 2),
                                (lit ''text'', JStr (lit '' hi ''))]))) = Inr res
          \<and> res_body res = Bytes [0x49, 0x44, 0x33]
          \<and> map_of (res_headers res) ''Content-Length'' = Some ''3'')"
  using generate_deterministic [of sample_key sample_config "sample_body (lit '' hi '')"
      "JObj [(lit ''voice_id'', JStr (lit ''v1'')), (lit ''speed'', JNum 2),
             (lit ''text'', JStr (lit '' hi ''))]"
      "lit '' hi ''" "lit ''v1''" "\<lambda>rq. Resolves (reply 200)" "reply 200"
      "\<lambda>rq. Resolves ((reply 206)\<lparr>up_statusText := lit ''Partial''\<rparr>)"
      "(reply 206)\<lparr>up_statusText := lit ''Partial''\<rparr>" "[0x49, 0x44, 0x33]"]
  by (simp add: sample_defs up_ok_def toString.simps digit_char_def)

text \<open>
  Claim C10. For a request that passes validation, \<open>generateSpeech\<close> is called once with
  the trimmed text, the request sent upstream carries the trimmed text, which is not empty
  and neither begins nor ends with white space, and the audio returned is the one the
  provider gave for that request. The length check reads the untrimmed text: a text that
  is longer than the limit is refused with 400 and nothing is sent, however short its
  trimmed form is.
\<close>

theorem provider_receives_trimmed_text:
  assumes "\<not> not_configured apiKey"
    and "string_field b ''text'' = Some t"
    and "string_field b ''voice_id'' = Some v"
  shows "(validation_failure cfg (Parsed b) = None \<longrightarrow>
            synthesize_calls (POST cfg fetch apiKey (Parsed b)) = [(api_key apiKey, trim t, v)]
          \<and> upstream_calls (POST cfg fetch apiKey (Parsed b)) = [speech_request (api_key apiKey) (trim t) v]
          \<and> map_option tts_text (request_body (speech_request (api_key apiKey) (trim t) v)) = Some (trim t)
          \<and> trim t \<noteq> [] \<and> \<not> isWhiteSpace (hd (trim t)) \<and> \<not> isWhiteSpace (last (trim t))
          \<and> (\<forall>r audio. fetch (speech_request (api_key apiKey) (trim t) v) = Resolves r \<and> up_ok r
                 \<and> up_arrayBuffer r = Some audio \<longrightarrow>
               outcome (POST cfg fetch apiKey (Parsed b)) = Inr (audio_response audio)))
     \<and> (trim t \<noteq> [] \<and> length t > MAX_TEXT_LENGTH cfg \<longrightarrow>
            outcome (POST cfg fetch apiKey (Parsed b)) =
              Inr (json_response (error_envelope (''Text exceeds maximum length of ''
                     @ toLocaleString cfg (MAX_TEXT_LENGTH cfg) @ '' characters'')) 400)
          \<and> synthesize_calls (POST cfg fetch apiKey (Parsed b)) = []
          \<and> upstream_calls (POST cfg fetch apiKey (Parsed b)) = [])"
proof (intro conjI impI)
  assume ok: "validation_failure cfg (Parsed b) = None"
  from validation_passed(2,3) [OF ok] assms(2,3) have ne: "trim t \<noteq> []" and v: "v \<noteq> []"
    by auto
  have gs: "snd (generateSpeech fetch (api_key apiKey) (trim t) v) =
      [speech_request (api_key apiKey) (trim t) v]"
    using configured_key [OF assms(1)] ne v by (simp add: generateSpeech_sends)
  show "synthesize_calls (POST cfg fetch apiKey (Parsed b)) = [(api_key apiKey, trim t, v)]"
    by (simp add: POST_accepted [OF assms(1) ok assms(2,3)] split: prod.splits sum.splits)
  show "upstream_calls (POST cfg fetch apiKey (Parsed b)) = [speech_request (api_key apiKey) (trim t) v]"
    using gs
    by (auto simp add: POST_accepted [OF assms(1) ok assms(2,3)] split: prod.splits sum.splits)
  show "map_option tts_text (request_body (speech_request (api_key apiKey) (trim t) v)) = Some (trim t)"
    by (simp add: speech_request_def)
  show "trim t \<noteq> []" by (rule ne)
  show "\<not> isWhiteSpace (hd (trim t))" by (rule trim_hd [OF ne])
  show "\<not> isWhiteSpace (last (trim t))" by (rule trim_last [OF ne])
  show "\<forall>r audio. fetch (speech_request (api_key apiKey) (trim t) v) = Resolves r \<and> up_ok r
                 \<and> up_arrayBuffer r = Some audio \<longrightarrow>
               outcome (POST cfg fetch apiKey (Parsed b)) = Inr (audio_response audio)"
    using POST_success [where fetch = fetch, OF assms(1) ok assms(2,3)] by simp
next
  assume long: "trim t \<noteq> [] \<and> length t > MAX_TEXT_LENGTH cfg"
  then have t: "t \<noteq> []" "\<not> (\<forall>c\<in>set t. isWhiteSpace c)"
    using trim_empty_iff [of t] by (auto simp add: trim_def)
  have nn: "b \<noteq> JNull" using assms(2) by auto
  have vf: "validation_failure cfg (Parsed b) = Some (''Text exceeds maximum length of ''
                     @ toLocaleString cfg (MAX_TEXT_LENGTH cfg) @ '' characters'')"
    using assms(2) t long by (simp add: validation_failure_def)
  show "outcome (POST cfg fetch apiKey (Parsed b)) =
              Inr (json_response (error_envelope (''Text exceeds maximum length of ''
                     @ toLocaleString cfg (MAX_TEXT_LENGTH cfg) @ '' characters'')) 400)"
    and "synthesize_calls (POST cfg fetch apiKey (Parsed b)) = []"
    and "upstream_calls (POST cfg fetch apiKey (Parsed b)) = []"
    using POST_configured [OF assms(1) nn, of cfg fetch] vf by (simp_all add: returns_def)
qed

theorem provider_receives_trimmed_text_witness:
  "synthesize_calls (POST sample_config (\<lambda>rq. Resolves (reply 200)) sample_key
      (Parsed (sample_body (lit '' hi '')))) = [(lit ''sk_test'', lit ''hi'', lit ''v1'')]
   \<and> upstream_calls (POST sample_config (\<lambda>rq. Resolves (reply 200)) sample_key
      (Parsed (sample_body (lit '' hi '')))) = [speech_request (lit ''sk_test'') (lit ''hi'') (lit ''v1'')]
   \<and> outcome (POST sample_config (\<lambda>rq. Resolves (reply 200)) sample_key
      (Parsed (sample_body (lit '' hi '')))) = Inr (audio_response [0x49, 0x44, 0x33])
   \<and> length (lit ''  hello  '') > MAX_TEXT_LENGTH sample_config
   \<and> length (trim (lit ''  hello  '')) \<le> MAX_TEXT_LENGTH sample_config
   \<and> outcome (POST sample_config (\<lambda>rq. Resolves (reply 200)) sample_key
      (Parsed (sample_body (lit ''  hello  '')))) =
        Inr (json_response (error_envelope ''Text exceeds maximum length of 5 characters'') 400)
   \<and> synthesize_calls (POST sample_config (\<lambda>rq. Resolves (reply 200)) sample_key
      (Parsed (sample_body (lit ''  hello  '')))) = []"
  using provider_receives_trimmed_text [of sample_key "sample_body (lit '' hi '')" "lit '' hi ''"
      "lit ''v1''" sample_config "\<lambda>rq. Resolves (reply 200)"]
    provider_receives_trimmed_text [of sample_key "sample_body (lit ''  hello  '')"
      "lit ''  hello  ''" "lit ''v1''" sample_config "\<lambda>rq. Resolves (reply 200)"]
  by (simp add: sample_defs up_ok_def toLocaleString_enUS_def toString.simps digit_char_def)

section \<open>The voices endpoint\<close>

text \<open>
  Claim C3, as the code has it. With a configured credential: when the provider answers
  with a success status and a catalogue whose \<open>voices\<close> is an array without \<open>null\<close>, the
  response is 200 with \<open>{success: true, voices: [...]}\<close>, one object per provider voice,
  each with no key other than \<open>voice_id\<close>, \<open>name\<close>, \<open>description\<close>, \<open>category\<close> and
  with the provider's values for these. When the provider answers with a non-success
  status, the response is the error envelope with status 401 for 401, 429 for 429, 500 for
  a status of 500 or more, and the provider's own status for any other status from 300 to
  499 except 304 (with the success statuses excluded, these are all the statuses of 300 or
  more other than 304); the response is the same for every provider body and status text,
  so nothing of the raw body reaches the client. In every other case the response is 500
  with \<open>An unexpected error occurred\<close>: the request is rejected, the body of a failure
  cannot be read, the body of a success is not JSON, or the catalogue is ill-shaped (its
  \<open>voices\<close> is missing, not an array, or an array that holds \<open>null\<close>, or the catalogue
  itself is \<open>null\<close>).
\<close>

theorem voices_endpoint_envelopes:
  assumes "\<not> not_configured apiKey"
  shows "(fetch (voices_request (api_key apiKey)) = Resolves r \<and> up_ok r \<and> up_json r = Some data
            \<and> get_prop data (lit ''voices'') = Inr (Some (JArr vs)) \<and> JNull \<notin> set vs \<longrightarrow>
          (\<exists>out. outcome (GET fetch apiKey) =
               Inr (json_response (JObj [(lit ''success'', JBool True), (lit ''voices'', JArr out)]) 200)
             \<and> length out = length vs
             \<and> (\<forall>i<length vs. only_voice_fields (out ! i)
                   \<and> (\<forall>k\<in>set voice_keys. get_prop (out ! i) k = get_prop (vs ! i) k))))
    \<and> (fetch (voices_request (api_key apiKey)) = Resolves r \<and> \<not> up_ok r \<and> up_text r = Some errorBody \<longrightarrow>
          (up_status r = 401 \<longrightarrow> outcome (GET fetch apiKey) =
              Inr (json_response (error_envelope ''Invalid API key configuration'') 401))
          \<and> (up_status r = 429 \<longrightarrow> outcome (GET fetch apiKey) =
              Inr (json_response (error_envelope ''Rate limit exceeded, please try again later'') 429))
          \<and> (up_status r \<ge> 500 \<longrightarrow> outcome (GET fetch apiKey) =
              Inr (json_response (error_envelope ''Failed to fetch voices'') 500))
          \<and> (300 \<le> up_status r \<and> up_status r < 500 \<and> up_status r \<notin> {304, 401, 429} \<longrightarrow>
              outcome (GET fetch apiKey) =
                Inr (json_response (error_envelope ''Failed to fetch voices'') (up_status r)))
          \<and> (\<forall>fetch' r' errorBody'. fetch' (voices_request (api_key apiKey)) = Resolves r'
                 \<and> up_status r' = up_status r \<and> up_text r' = Some errorBody' \<longrightarrow>
               outcome (GET fetch' apiKey) = outcome (GET fetch apiKey)))
    \<and> (fetch (voices_request (api_key apiKey)) = Rejects
          \<or> (\<exists>r. fetch (voices_request (api_key apiKey)) = Resolves r
                 \<and> (if up_ok r then
                       (case up_json r of
                          None \<Rightarrow> True
                        | Some data \<Rightarrow>
                            (\<forall>vs. get_prop data (lit ''voices'') = Inr (Some (JArr vs)) \<longrightarrow>
                               JNull \<in> set vs))
                     else up_text r = None)) \<longrightarrow>
          outcome (GET fetch apiKey) = Inr unexpected_error)"
proof (intro conjI impI)
  assume "fetch (voices_request (api_key apiKey)) = Resolves r \<and> up_ok r \<and> up_json r = Some data
            \<and> get_prop data (lit ''voices'') = Inr (Some (JArr vs)) \<and> JNull \<notin> set vs"
  then show "\<exists>out. outcome (GET fetch apiKey) =
               Inr (json_response (JObj [(lit ''success'', JBool True), (lit ''voices'', JArr out)]) 200)
             \<and> length out = length vs
             \<and> (\<forall>i<length vs. only_voice_fields (out ! i)
                   \<and> (\<forall>k\<in>set voice_keys. get_prop (out ! i) k = get_prop (vs ! i) k))"
    using GET_success [where fetch = fetch, OF assms] by blast
next
  assume a: "fetch (voices_request (api_key apiKey)) = Resolves r \<and> \<not> up_ok r \<and> up_text r = Some errorBody"
  then have e: "outcome (GET fetch apiKey) =
            (if up_status r = 401 then
               NextResponse_json (error_envelope ''Invalid API key configuration'') 401
             else if up_status r = 429 then
               NextResponse_json (error_envelope ''Rate limit exceeded, please try again later'') 429
             else if up_status r \<ge> 500 \<or> up_status r = 0 then
               NextResponse_json (error_envelope ''Failed to fetch voices'') 500
             else NextResponse_json (error_envelope ''Failed to fetch voices'') (up_status r))"
    using GET_provider_error [where fetch = fetch, OF assms] by blast
  show "outcome (GET fetch apiKey) =
      Inr (json_response (error_envelope ''Invalid API key configuration'') 401)"
    if "up_status r = 401" using e that by (simp add: NextResponse_json_def)
  show "outcome (GET fetch apiKey) =
      Inr (json_response (error_envelope ''Rate limit exceeded, please try again later'') 429)"
    if "up_status r = 429" using e that by (simp add: NextResponse_json_def)
  show "outcome (GET fetch apiKey) =
      Inr (json_response (error_envelope ''Failed to fetch voices'') 500)"
    if "up_status r \<ge> 500" using e that by (simp add: NextResponse_json_def)
  show "outcome (GET fetch apiKey) =
      Inr (json_response (error_envelope ''Failed to fetch voices'') (up_status r))"
    if "300 \<le> up_status r \<and> up_status r < 500 \<and> up_status r \<notin> {304, 401, 429}"
    using e that by (simp add: NextResponse_json_def)
  show "\<forall>fetch' r' errorBody'. fetch' (voices_request (api_key apiKey)) = Resolves r'
                 \<and> up_status r' = up_status r \<and> up_text r' = Some errorBody' \<longrightarrow>
               outcome (GET fetch' apiKey) = outcome (GET fetch apiKey)"
  proof (intro allI impI)
    fix fetch' r' errorBody'
    assume b: "fetch' (voices_request (api_key apiKey)) = Resolves r'
                 \<and> up_status r' = up_status r \<and> up_text r' = Some errorBody'"
    with a have "\<not> up_ok r'" by (simp add: up_ok_def)
    with b GET_provider_error [where fetch = fetch' and r = r', OF assms]
    show "outcome (GET fetch' apiKey) = outcome (GET fetch apiKey)" using e by simp
  qed
next
  assume "fetch (voices_request (api_key apiKey)) = Rejects
          \<or> (\<exists>r. fetch (voices_request (api_key apiKey)) = Resolves r
                 \<and> (if up_ok r then
                       (case up_json r of
                          None \<Rightarrow> True
                        | Some data \<Rightarrow>
                            (\<forall>vs. get_prop data (lit ''voices'') = Inr (Some (JArr vs)) \<longrightarrow>
                               JNull \<in> set vs))
                     else up_text r = None))"
  then show "outcome (GET fetch apiKey) = Inr unexpected_error"
    by (rule GET_unclassified [OF assms])
qed

theorem voices_endpoint_envelopes_witness:
  "(\<exists>out. outcome (GET (\<lambda>rq. Resolves voices_reply) sample_key) =
        Inr (json_response (JObj [(lit ''success'', JBool True), (lit ''voices'', JArr out)]) 200)
      \<and> length out = 1
      \<and> only_voice_fields (out ! 0)
      \<and> get_prop (out ! 0) (lit ''voice_id'') = Inr (Some (JStr (lit ''v1'')))
      \<and> get_prop (out ! 0) (lit ''name'') = Inr (Some (JStr (lit ''Rachel'')))
      \<and> get_prop (out ! 0) (lit ''description'') = Inr None
      \<and> get_prop (out ! 0) (lit ''category'') = Inr (Some (JStr (lit ''premade''))))
   \<and> outcome (GET (\<lambda>rq. Resolves (reply 429)) sample_key) =
        Inr (json_response (error_envelope ''Rate limit exceeded, please try again later'') 429)
   \<and> outcome (GET (\<lambda>rq. Rejects) sample_key) = Inr unexpected_error
   \<and> outcome (GET (\<lambda>rq. Resolves (voices_reply\<lparr>up_json :=
          Some (JObj [(lit ''voices'', JArr [JNull])])\<rparr>)) sample_key) = Inr unexpected_error
   \<and> outcome (GET (\<lambda>rq. Resolves (voices_reply\<lparr>up_json := Some (JObj [])\<rparr>)) sample_key)
        = Inr unexpected_error"
proof -
  have c: "\<not> not_configured sample_key" by (simp add: sample_defs)
  have d: "get_prop sample_voices (lit ''voices'') = Inr (Some (JArr [JObj [(lit ''voice_id'', JStr (lit ''v1'')),
      (lit ''name'', JStr (lit ''Rachel'')), (lit ''category'', JStr (lit ''premade'')),
      (lit ''preview_url'', JStr (lit ''https://x/y.mp3''))]]))"
    by (simp add: sample_voices_def)
  have v: "get_prop (JObj [(lit ''voice_id'', JStr (lit ''v1'')),
      (lit ''name'', JStr (lit ''Rachel'')), (lit ''category'', JStr (lit ''premade'')),
      (lit ''preview_url'', JStr (lit ''https://x/y.mp3''))]) (lit ''voice_id'') = Inr (Some (JStr (lit ''v1'')))"
    "get_prop (JObj [(lit ''voice_id'', JStr (lit ''v1'')),
      (lit ''name'', JStr (lit ''Rachel'')), (lit ''category'', JStr (lit ''premade'')),
      (lit ''preview_url'', JStr (lit ''https://x/y.mp3''))]) (lit ''name'') = Inr (Some (JStr (lit ''Rachel'')))"
    "get_prop (JObj [(lit ''voice_id'', JStr (lit ''v1'')),
      (lit ''name'', JStr (lit ''Rachel'')), (lit ''category'', JStr (lit ''premade'')),
      (lit ''preview_url'', JStr (lit ''https://x/y.mp3''))]) (lit ''description'') = Inr None"
    "get_prop (JObj [(lit ''voice_id'', JStr (lit ''v1'')),
      (lit ''name'', JStr (lit ''Rachel'')), (lit ''category'', JStr (lit ''premade'')),
      (lit ''preview_url'', JStr (lit ''https://x/y.mp3''))]) (lit ''category'') = Inr (Some (JStr (lit ''premade'')))"
    by (simp_all add: lit_def)
  note t = voices_endpoint_envelopes [OF c, of "\<lambda>rq. Resolves voices_reply" voices_reply sample_voices
      "[JObj [(lit ''voice_id'', JStr (lit ''v1'')),
      (lit ''name'', JStr (lit ''Rachel'')), (lit ''category'', JStr (lit ''premade'')),
      (lit ''preview_url'', JStr (lit ''https://x/y.mp3''))]]" "[]"]
  have "\<exists>out. outcome (GET (\<lambda>rq. Resolves voices_reply) sample_key) =
        Inr (json_response (JObj [(lit ''success'', JBool True), (lit ''voices'', JArr out)]) 200)
      \<and> length out = 1
      \<and> only_voice_fields (out ! 0)
      \<and> get_prop (out ! 0) (lit ''voice_id'') = Inr (Some (JStr (lit ''v1'')))
      \<and> get_prop (out ! 0) (lit ''name'') = Inr (Some (JStr (lit ''Rachel'')))
      \<and> get_prop (out ! 0) (lit ''description'') = Inr None
      \<and> get_prop (out ! 0) (lit ''category'') = Inr (Some (JStr (lit ''premade'')))"
    using t d v
    by (simp add: voices_reply_def up_ok_def voice_keys_def del: get_prop.simps only_voice_fields.simps)
  moreover have "outcome (GET (\<lambda>rq. Resolves (reply 429)) sample_key) =
        Inr (json_response (error_envelope ''Rate limit exceeded, please try again later'') 429)"
    using voices_endpoint_envelopes [OF c, of "\<lambda>rq. Resolves (reply 429)" "reply 429" JNull "[]" "lit ''{\"detail\":\"x\"}''"]
    by (simp add: reply_def up_ok_def lit_def)
  moreover have "outcome (GET (\<lambda>rq. Rejects) sample_key) = Inr unexpected_error"
    using voices_endpoint_envelopes [OF c, of "\<lambda>rq. Rejects" "reply 200" JNull "[]" "[]"] by simp
  moreover have "outcome (GET (\<lambda>rq. Resolves (voices_reply\<lparr>up_json :=
          Some (JObj [(lit ''voices'', JArr [JNull])])\<rparr>)) sample_key) = Inr unexpected_error"
    using voices_endpoint_envelopes [OF c, of "\<lambda>rq. Resolves (voices_reply\<lparr>up_json :=
          Some (JObj [(lit ''voices'', JArr [JNull])])\<rparr>)" "reply 200" JNull "[]" "[]"]
    by (simp add: voices_reply_def up_ok_def)
  moreover have "outcome (GET (\<lambda>rq. Resolves (voices_reply\<lparr>up_json := Some (JObj [])\<rparr>)) sample_key)
        = Inr unexpected_error"
    using voices_endpoint_envelopes [OF c, of "\<lambda>rq. Resolves (voices_reply\<lparr>up_json :=
          Some (JObj [])\<rparr>)" "reply 200" JNull "[]" "[]"]
    by (simp add: voices_reply_def up_ok_def)
  ultimately show ?thesis by blast
qed

text \<open>
  The claim as stated fails for a provider status below 500 other than 401 and 429: a
  provider 403 is answered with 403, not with 500.
\<close>

theorem provider_403_counterexample:
  "outcome (GET (\<lambda>rq. Resolves (reply 403)) sample_key) =
     Inr (json_response (error_envelope ''Failed to fetch voices'') 403)
   \<and> json_response (error_envelope ''Failed to fetch voices'') 403
       \<noteq> json_response (error_envelope ''Failed to fetch voices'') 500"
  by (simp add: sample_defs GET_def fetchElevenLabsVoices_def up_ok_def NextResponse_json_def json_response_def Let_def)

text \<open>
  At a provider status of 304 the \<open>catch\<close> block asks \<open>NextResponse.json\<close> for a response
  with status 304, which it refuses: the exception escapes the handler.
\<close>

lemma voices_304_escapes:
  "outcome (GET (\<lambda>rq. Resolves (reply 304)) sample_key) = Inl TypeError"
  by (simp add: sample_defs GET_def fetchElevenLabsVoices_def up_ok_def NextResponse_json_def Let_def)

section \<open>The page component\<close>

lemmas client_defs = run_def initial_def commit_def unmount_def run_cleanup_def set_state_def
  loadVoices_resume_def handleGenerate_start_def handleGenerate_resume_def guard_def
  isGenerateDisabled_def createObjectURL_def revokeObjectURL_def cr_ok_def audio_reply_def
  generations_def live_urls_def sample_ready_def sample_setup_def sample_payloads_def sample_blank_def rate_limited_def wrong_type_def
  lit_def isWhiteSpace_def trim_def Let_def

text \<open>
  Claim C7. When \<open>storyText\<close> is empty or all white space, or no voice is selected, the
  generate action does nothing: the world after it is the world before it (no state field
  changes, no request is added to the requests sent, no object URL is created or
  revoked), whether the action is called directly or through the button.
\<close>

theorem generate_guarded_noop:
  assumes "(\<forall>c\<in>set (storyText (state w)). isWhiteSpace c) \<or> selectedVoiceId (state w) = None"
  shows "handleGenerate settled w = w \<and> handleGenerate_start w = w \<and> step maxLength w Click = w"
proof -
  from assms have "guard (state w)"
    using trim_empty_iff [of "storyText (state w)"] by (auto simp add: guard_def)
  then show ?thesis
    by (simp add: handleGenerate_def handleGenerate_start_def isGenerateDisabled_def)
qed

theorem generate_guarded_noop_witness:
  "storyText (state sample_blank) = lit ''   ''
   \<and> handleGenerate (audio_reply [0x49]) sample_blank = sample_blank
   \<and> step 100 sample_blank Click = sample_blank
   \<and> selectedVoiceId (state initial) = None
   \<and> handleGenerate (audio_reply [0x49]) initial = initial"
proof -
  have a: "\<forall>c\<in>set (storyText (state sample_blank)). isWhiteSpace c" by (simp add: client_defs)
  have b: "selectedVoiceId (state initial) = None" by (simp add: initial_def)
  have t: "storyText (state sample_blank) = lit ''   ''" by (simp add: client_defs)
  from a b t generate_guarded_noop [of sample_blank "audio_reply [0x49]" 100]
    generate_guarded_noop [of initial "audio_reply [0x49]" 100]
  show ?thesis by blast
qed

text \<open>
  Claim C6. When the generate action passes its guard on the mounted page, it sets
  \<open>isGenerating\<close> and sends one request, and \<open>isGenerating\<close> is false when the action
  ends, however the request settles (rejected, answered with any status, content type
  and body), with or without a render in between.
\<close>

theorem isGenerating_cleared:
  assumes "mounted w" and "\<not> guard (state w)"
  shows "isGenerating (state (handleGenerate_start w))
    \<and> length (requests (handleGenerate_start w)) = Suc (length (requests w))
    \<and> \<not> isGenerating (state (handleGenerate settled w))
    \<and> \<not> isGenerating (state (handleGenerate_resume settled (commit (handleGenerate_start w))))"
  using assms start_sets [OF assms]
  by (simp add: handleGenerate_def resume_clears commit_mounted)

theorem isGenerating_cleared_witness:
  "mounted sample_ready \<and> \<not> guard (state sample_ready)
   \<and> \<not> isGenerating (state (handleGenerate (audio_reply [0x49]) sample_ready))
   \<and> \<not> isGenerating (state (handleGenerate rate_limited sample_ready))
   \<and> \<not> isGenerating (state (handleGenerate wrong_type sample_ready))
   \<and> \<not> isGenerating (state (handleGenerate FetchRejects sample_ready))"
proof -
  have m: "mounted sample_ready" and g: "\<not> guard (state sample_ready)"
    by (simp_all add: client_defs)
  from isGenerating_cleared [OF m g, of "audio_reply [0x49]"] isGenerating_cleared [OF m g, of rate_limited]
    isGenerating_cleared [OF m g, of wrong_type] isGenerating_cleared [OF m g, of FetchRejects] m g
  show ?thesis by simp
qed

text \<open>
  Claim C5. In every world reachable from the initial one, at most one object URL is
  live, no URL is revoked twice or before it was created, and while the page is mounted
  the live URLs are exactly the one the state holds. Whatever happens next in such a
  world, the URL the state held is revoked at that step when the page is mounted and
  \<open>audioUrl\<close> changes or the page is torn down, and nothing is revoked otherwise; after
  the teardown of a mounted page no URL is live. From a world in which the button is
  enabled and no URL was created yet, \<open>N > 0\<close> successful generations in a row leave
  the releases \<open>0, ..., N - 2\<close> (that is \<open>N - 1\<close> of them) and the one live URL
  \<open>N - 1\<close>; the teardown after them leaves the \<open>N\<close> releases \<open>0, ..., N - 1\<close> and no
  live URL. A cleanup that captured no URL changes nothing.
\<close>

theorem audio_url_released_once:
  shows "length (live_urls (browser (run maxLength evs initial))) \<le> 1
    \<and> distinct (revoked (browser (run maxLength evs initial)))
    \<and> (\<forall>u\<in>set (revoked (browser (run maxLength evs initial))).
          u < created (browser (run maxLength evs initial)))
    \<and> (mounted (run maxLength evs initial) \<longrightarrow>
          live_urls (browser (run maxLength evs initial)) = held (run maxLength evs initial))
    \<and> revoked (browser (step maxLength (run maxLength evs initial) ev)) =
          revoked (browser (run maxLength evs initial)) @
            (if mounted (run maxLength evs initial)
                \<and> (audioUrl (state (step maxLength (run maxLength evs initial) ev))
                       \<noteq> audioUrl (state (run maxLength evs initial)) \<or> ev = Teardown)
             then held (run maxLength evs initial) else [])
    \<and> (mounted (run maxLength evs initial) \<longrightarrow>
          live_urls (browser (step maxLength (run maxLength evs initial) Teardown)) = [])
    \<and> (ready (run maxLength evs initial) \<and> created (browser (run maxLength evs initial)) = 0
          \<and> payloads \<noteq> [] \<longrightarrow>
          revoked (browser (run maxLength (evs @ generations payloads) initial))
            = [0 ..< length payloads - 1]
        \<and> live_urls (browser (run maxLength (evs @ generations payloads) initial))
            = [length payloads - 1]
        \<and> revoked (browser (run maxLength (evs @ generations payloads @ [Teardown]) initial))
            = [0 ..< length payloads]
        \<and> live_urls (browser (run maxLength (evs @ generations payloads @ [Teardown]) initial)) = [])
    \<and> (cleanup_url w = None \<longrightarrow> run_cleanup w = w)"
proof (intro conjI impI)
  let ?w = "run maxLength evs initial"
  have c: "consistent ?w" by (rule reachable_consistent)
  show "length (live_urls (browser ?w)) \<le> 1" by (rule consistent_live [OF c])
  show "distinct (revoked (browser ?w))" using c by (simp add: consistent_def)
  show "\<forall>u\<in>set (revoked (browser ?w)). u < created (browser ?w)"
    using c by (simp add: consistent_def)
  show "live_urls (browser ?w) = held ?w" if "mounted ?w"
    using c that by (simp add: consistent_def)
  show "revoked (browser (step maxLength ?w ev)) =
          revoked (browser ?w) @
            (if mounted ?w \<and> (audioUrl (state (step maxLength ?w ev)) \<noteq> audioUrl (state ?w)
                 \<or> ev = Teardown)
             then held ?w else [])"
    by (rule step_released [OF c])
  show "live_urls (browser (step maxLength ?w Teardown)) = []" if "mounted ?w"
    by (rule teardown_released(2) [OF c that])
  show "run_cleanup w = w" if "cleanup_url w = None"
    using that by (simp add: run_cleanup_def)
  assume a: "ready ?w \<and> created (browser ?w) = 0 \<and> payloads \<noteq> []"
  let ?n = "length payloads"
  let ?g = "run maxLength (evs @ generations payloads) initial"
  have g: "?g = run maxLength (generations payloads) ?w" by (simp add: run_append)
  from a fresh_ready [OF c] have f: "revoked (browser ?w) = []" "held ?w = []" by simp_all
  from a many_generations [of ?w maxLength payloads] f
  have r: "ready ?g" and u: "audioUrl (state ?g) = Some (?n - 1)"
    and v: "revoked (browser ?g) = [0 ..< ?n - 1]"
    unfolding g by simp_all
  show "revoked (browser ?g) = [0 ..< ?n - 1]" by (rule v)
  have cg: "consistent ?g" by (rule reachable_consistent)
  with r u show l: "live_urls (browser ?g) = [?n - 1]"
    by (simp add: consistent_def ready_def held_def)
  have t: "run maxLength (evs @ generations payloads @ [Teardown]) initial = step maxLength ?g Teardown"
    using run_append [of maxLength "evs @ generations payloads" "[Teardown]" initial]
    by (simp add: run_def)
  from a have "0 < ?n" by simp
  then have "[0 ..< ?n - 1] @ [?n - 1] = [0 ..< ?n]"
    by (metis Suc_pred' upt_Suc_append zero_le)
  with teardown_ready [OF r u l, of maxLength] v
  show "revoked (browser (run maxLength (evs @ generations payloads @ [Teardown]) initial)) = [0 ..< ?n]"
    and "live_urls (browser (run maxLength (evs @ generations payloads @ [Teardown]) initial)) = []"
    unfolding t by simp_all
qed

theorem audio_url_released_once_witness:
  "ready (run 100 sample_setup initial)
   \<and> created (browser (run 100 sample_setup initial)) = 0
   \<and> revoked (browser (run 100 (sample_setup @ generations sample_payloads) initial)) = [0, 1]
   \<and> live_urls (browser (run 100 (sample_setup @ generations sample_payloads) initial)) = [2]
   \<and> revoked (browser (run 100 (sample_setup @ generations sample_payloads @ [Teardown]) initial))
        = [0, 1, 2]
   \<and> live_urls (browser (run 100 (sample_setup @ generations sample_payloads @ [Teardown]) initial))
        = []
   \<and> storyText (state (run 100 (sample_setup @ generations [[0x49]] @ [Input []]) initial)) = []
   \<and> revoked (browser (step 100
         (run 100 (sample_setup @ generations [[0x49]] @ [Input []]) initial) Teardown)) = [0]
   \<and> live_urls (browser (step 100
         (run 100 (sample_setup @ generations [[0x49]] @ [Input []]) initial) Teardown)) = []"
proof -
  have r: "ready (run 100 sample_setup initial)"
    and c: "created (browser (run 100 sample_setup initial)) = 0"
    by (simp_all add: ready_def sample_setup_def client_defs)
  have p: "sample_payloads \<noteq> []" by (simp add: sample_payloads_def)
  have n: "length sample_payloads = 3" by (simp add: sample_payloads_def)
  have e: "[0 ..< 3 - 1] = [0, 1 :: nat]" "[0 ..< 2] = [0, 1 :: nat]" "[0 ..< 3] = [0, 1, 2 :: nat]"
    "(3 :: nat) - 1 = 2"
    by (simp_all add: upt_rec)
  note t = audio_url_released_once [where maxLength = 100 and evs = sample_setup
      and payloads = sample_payloads and w = initial and ev = Click, unfolded n e]
  from t r c p have g: "revoked (browser (run 100 (sample_setup @ generations sample_payloads) initial)) = [0, 1]
   \<and> live_urls (browser (run 100 (sample_setup @ generations sample_payloads) initial)) = [2]
   \<and> revoked (browser (run 100 (sample_setup @ generations sample_payloads @ [Teardown]) initial))
        = [0, 1, 2]
   \<and> live_urls (browser (run 100 (sample_setup @ generations sample_payloads @ [Teardown]) initial))
        = []"
    by blast
  define w where "w = run 100 (sample_setup @ generations [[0x49]] @ [Input []]) initial"
  have m: "mounted w" and s: "storyText (state w) = []"
    and h: "held w = [0]" and v: "revoked (browser w) = []"
    by (simp_all add: w_def held_def sample_setup_def client_defs)
  note u = audio_url_released_once [where maxLength = 100
      and evs = "sample_setup @ generations [[0x49]] @ [Input []]"
      and payloads = sample_payloads and w = initial and ev = Teardown, folded w_def]
  from u m have "live_urls (browser (step 100 w Teardown)) = []" by blast
  moreover from u m h v have "revoked (browser (step 100 w Teardown)) = [0]" by simp
  ultimately show ?thesis using r c g s unfolding w_def by blast
qed

end
